theory Spec2Isabelle
  imports Main "HOL-Library.Word"
begin

section \<open>Data model\<close>

text \<open>
  Python raises are values: every function that can raise returns \<open>error + 'a\<close>,
  with \<open>Inl\<close> the exception.
\<close>

datatype error = TypeError | ValueError | KeyError | AssertionError | AttributeError

definition bind_err :: "error + 'a \<Rightarrow> ('a \<Rightarrow> error + 'b) \<Rightarrow> error + 'b" where
  "bind_err m f = (case m of Inl e \<Rightarrow> Inl e | Inr v \<Rightarrow> f v)"

type_synonym bytes32 = "256 word"
type_synonym uint32 = "32 word"
type_synonym uint64 = "64 word"

text \<open>
  \<open>uint32(v)\<close>, \<open>uint64(v)\<close> and \<open>uint128(v)\<close> of \<open>chia.util.ints\<close> construct a
  bounded integer from a Python int and raise ValueError when it does not fit.
\<close>

definition mk_uint32 :: "int \<Rightarrow> error + uint32" where
  "mk_uint32 v = (if 0 \<le> v \<and> v < 2 ^ 32 then Inr (word_of_int v) else Inl ValueError)"

definition mk_uint64 :: "int \<Rightarrow> error + uint64" where
  "mk_uint64 v = (if 0 \<le> v \<and> v < 2 ^ 64 then Inr (word_of_int v) else Inl ValueError)"

definition mk_uint128 :: "int \<Rightarrow> error + int" where
  "mk_uint128 v = (if 0 \<le> v \<and> v < 2 ^ 128 then Inr v else Inl ValueError)"

record Coin =
  parent_coin_info :: bytes32
  puzzle_hash :: bytes32
  amount :: uint64

datatype WalletType =
  STANDARD_WALLET | RATE_LIMITED | COLOURED_COIN | DISTRIBUTED_ID | POOLING_WALLET

datatype TransactionType =
  INCOMING_TX | OUTGOING_TX | COINBASE_REWARD | FEE_REWARD | INCOMING_TRADE | OUTGOING_TRADE

text \<open>
  The state manager builds \<open>WalletCoinRecord\<close> positionally:
  \<open>WalletCoinRecord(coin, height, uint32(0), False, farm_reward, wallet_type, wallet_id)\<close>
  for an unspent coin and \<open>WalletCoinRecord(coin, created, spent, True, ...)\<close> for a coin
  first seen spent. The fourth field is the spent flag, the fifth the farm-reward flag;
  \<open>spent_height = 0\<close> means unspent.
\<close>

record WalletCoinRecord =
  wcr_coin :: Coin
  confirmed_height :: uint32
  spent_height :: uint32
  wcr_spent :: bool
  is_farm_reward :: bool
  wcr_wallet_type :: WalletType
  wcr_wallet_id :: uint32

record TransactionRecord =
  confirmed_at_height :: uint32
  created_at_time :: uint64
  to_puzzle_hash :: bytes32
  tx_amount :: uint64
  fee_amount :: uint64
  confirmed :: bool
  sent :: uint32
  additions :: "Coin list"
  removals :: "Coin list"
  tx_wallet_id :: uint32
  sent_to :: "(string \<times> nat \<times> string option) list"
  trade_id :: "bytes32 option"
  tx_type :: TransactionType
  tx_name :: bytes32

record DerivationRecord =
  dr_index :: uint32
  dr_puzzle_hash :: bytes32
  dr_pubkey :: nat
  dr_wallet_type :: WalletType
  dr_wallet_id :: uint32

record CoinState =
  cs_coin :: Coin
  cs_spent_height :: "uint32 option"
  cs_created_height :: "uint32 option"

text \<open>
  A wallet of the registry \<open>self.wallets\<close>, as far as the state manager reads it:
  \<open>type()\<close>, \<open>id()\<close>, the tree hash of \<open>puzzle_for_pk(pubkey)\<close> (\<open>None\<close> when the
  wallet returns no puzzle), the answer of a pool wallet's \<open>rewind(height)\<close>, and the
  \<open>rl_info\<close> attributes, which are read only for a rate-limited wallet.
\<close>

record WalletObj =
  w_type :: WalletType
  w_id :: uint32
  puzzle_for_pk :: "nat \<Rightarrow> bytes32 option"
  rewind :: "uint32 \<Rightarrow> bool"
  rl_initialized :: bool
  rl_type :: string
  rl_user_pubkey :: nat
  rl_admin_pubkey :: nat

text \<open>
  Calls that leave the state manager (callbacks, the subscription sink, wallet hooks, the
  trade manager, the user store) are recorded in order.
\<close>

datatype effect =
    StateChanged string uint32
  | TxPendingChanged
  | SubscribeToNewPuzzleHash "bytes32 list"
  | WalletCoinAdded uint32 Coin uint32
  | CoinsOfInterestFarmed CoinState
  | WalletRewind uint32 uint32
  | DeleteWallet uint32

text \<open>
  The collaborators the state manager only reads: coin naming (\<open>coin.name()\<close>), the
  reward parent ids of \<open>chia.consensus.coinbase\<close> at the genesis challenge,
  \<open>master_sk_to_wallet_sk(private_key, index).get_g1()\<close>, the wallet node's peer and its
  answers, \<open>secrets.token_bytes\<close> (the n-th draw), and the trade manager's coins of
  interest.
\<close>

record env =
  coin_name :: "Coin \<Rightarrow> bytes32"
  farmer_parent_id :: "int \<Rightarrow> bytes32"
  pool_parent_id :: "int \<Rightarrow> bytes32"
  get_public_key :: "nat \<Rightarrow> nat"
  get_full_node_peer :: "nat option"
  fetch_children :: "bytes32 \<Rightarrow> CoinState list"
  reserved_fee :: "uint32 \<Rightarrow> Coin \<Rightarrow> int"
  get_timestamp_for_height :: "uint32 \<Rightarrow> uint64"
  token_bytes :: "nat \<Rightarrow> bytes32"
  trade_removals :: "bytes32 list"
  trade_additions :: "bytes32 list"
  initial_num_public_keys :: nat
  initial_num_public_keys_new_wallet :: nat

record wallet_state =
  coin_store :: "WalletCoinRecord list"
  tx_store :: "TransactionRecord list"
  derivation_paths :: "DerivationRecord list"
  last_used :: "nat option"
  interested_puzzle_hashes :: "(bytes32 \<times> uint32) list"
  wallets :: "(uint32 \<times> WalletObj) list"
  new_peak_callbacks :: "uint32 list"
  new_wallet :: bool
  state_changed_callback :: bool
  pending_tx_callback :: bool
  tokens_drawn :: nat
  effects :: "effect list"

section \<open>Coin ledger, transaction ledger, derivation index\<close>

text \<open>
  Modelled from the spec: the record stores (\<open>WalletCoinStore\<close>,
  \<open>WalletTransactionStore\<close>, \<open>WalletPuzzleStore\<close>, \<open>WalletInterestedStore\<close>) are not
  among the source files. Section 4.2 gives them as tables with a primary key: the coin
  ledger keyed by coin name, the transaction ledger by \<open>tx.name\<close>. A table is a list of
  rows in insertion order; adding a row whose key is present replaces that row.
\<close>

definition get_coin_record ::
  "(Coin \<Rightarrow> bytes32) \<Rightarrow> WalletCoinRecord list \<Rightarrow> bytes32 \<Rightarrow> WalletCoinRecord option" where
  "get_coin_record nm L n = find (\<lambda>r. nm (wcr_coin r) = n) L"

definition add_coin_record ::
  "(Coin \<Rightarrow> bytes32) \<Rightarrow> WalletCoinRecord \<Rightarrow> WalletCoinRecord list \<Rightarrow> WalletCoinRecord list" where
  "add_coin_record nm r L =
     (if get_coin_record nm L (nm (wcr_coin r)) = None then L @ [r]
      else map (\<lambda>r'. if nm (wcr_coin r') = nm (wcr_coin r) then r else r') L)"

definition set_spent ::
  "(Coin \<Rightarrow> bytes32) \<Rightarrow> bytes32 \<Rightarrow> uint32 \<Rightarrow> WalletCoinRecord list \<Rightarrow> WalletCoinRecord list" where
  "set_spent nm n h L =
     map (\<lambda>r. if nm (wcr_coin r) = n then r\<lparr>spent_height := h, wcr_spent := True\<rparr> else r) L"

definition get_unspent_coins_for_wallet ::
  "WalletCoinRecord list \<Rightarrow> uint32 \<Rightarrow> WalletCoinRecord list" where
  "get_unspent_coins_for_wallet L w = filter (\<lambda>r. spent_height r = 0 \<and> wcr_wallet_id r = w) L"

text \<open>
  \<open>rollback_to_block(h)\<close> of the coin ledger: deletes every record with
  \<open>confirmed_height > h\<close> and clears the spend of every record with \<open>spent_height > h\<close>.
\<close>

definition coin_rollback_to_block :: "uint32 \<Rightarrow> WalletCoinRecord list \<Rightarrow> WalletCoinRecord list" where
  "coin_rollback_to_block h L =
     map (\<lambda>r. if h < spent_height r then r\<lparr>spent_height := 0, wcr_spent := False\<rparr> else r)
       (filter (\<lambda>r. \<not> h < confirmed_height r) L)"

definition get_transaction_record ::
  "TransactionRecord list \<Rightarrow> bytes32 \<Rightarrow> TransactionRecord option" where
  "get_transaction_record T n = find (\<lambda>t. tx_name t = n) T"

definition add_transaction_record ::
  "TransactionRecord \<Rightarrow> TransactionRecord list \<Rightarrow> TransactionRecord list" where
  "add_transaction_record t T =
     (if get_transaction_record T (tx_name t) = None then T @ [t]
      else map (\<lambda>t'. if tx_name t' = tx_name t then t else t') T)"

definition set_confirmed ::
  "bytes32 \<Rightarrow> uint32 \<Rightarrow> TransactionRecord list \<Rightarrow> TransactionRecord list" where
  "set_confirmed n h T =
     map (\<lambda>t. if tx_name t = n then t\<lparr>confirmed := True, confirmed_at_height := h\<rparr> else t) T"

definition get_unconfirmed_for_wallet ::
  "TransactionRecord list \<Rightarrow> uint32 \<Rightarrow> TransactionRecord list" where
  "get_unconfirmed_for_wallet T w = filter (\<lambda>t. \<not> confirmed t \<and> tx_wallet_id t = w) T"

definition get_all_unconfirmed :: "TransactionRecord list \<Rightarrow> TransactionRecord list" where
  "get_all_unconfirmed T = filter (\<lambda>t. \<not> confirmed t) T"

definition get_all_transactions_for_wallet ::
  "TransactionRecord list \<Rightarrow> uint32 \<Rightarrow> TransactionType option \<Rightarrow> TransactionRecord list" where
  "get_all_transactions_for_wallet T w ty =
     filter (\<lambda>t. tx_wallet_id t = w \<and> (case ty of None \<Rightarrow> True | Some k \<Rightarrow> tx_type t = k)) T"

definition get_transaction_above :: "TransactionRecord list \<Rightarrow> uint32 \<Rightarrow> TransactionRecord list" where
  "get_transaction_above T h = filter (\<lambda>t. h < confirmed_at_height t) T"

definition tx_rollback_to_block :: "uint32 \<Rightarrow> TransactionRecord list \<Rightarrow> TransactionRecord list" where
  "tx_rollback_to_block h T = filter (\<lambda>t. \<not> (confirmed t \<and> h < confirmed_at_height t)) T"

text \<open>\<open>tx_reorged(record)\<close> puts the record back as a pending, unconfirmed transaction.\<close>

definition tx_reorged :: "TransactionRecord \<Rightarrow> TransactionRecord list \<Rightarrow> TransactionRecord list" where
  "tx_reorged t T =
     add_transaction_record
       (t\<lparr>confirmed := False, confirmed_at_height := 0, sent := 0, sent_to := []\<rparr>) T"

definition get_derivation_record_for_puzzle_hash ::
  "DerivationRecord list \<Rightarrow> bytes32 \<Rightarrow> DerivationRecord option" where
  "get_derivation_record_for_puzzle_hash D ph = find (\<lambda>d. dr_puzzle_hash d = ph) D"

definition wallet_info_for_puzzle_hash ::
  "DerivationRecord list \<Rightarrow> bytes32 \<Rightarrow> (uint32 \<times> WalletType) option" where
  "wallet_info_for_puzzle_hash D ph =
     map_option (\<lambda>d. (dr_wallet_id d, dr_wallet_type d)) (get_derivation_record_for_puzzle_hash D ph)"

definition index_for_puzzle_hash :: "DerivationRecord list \<Rightarrow> bytes32 \<Rightarrow> uint32 option" where
  "index_for_puzzle_hash D ph = map_option dr_index (get_derivation_record_for_puzzle_hash D ph)"

section \<open>Balance queries\<close>

definition does_coin_belong_to_wallet :: "wallet_state \<Rightarrow> Coin \<Rightarrow> uint32 \<Rightarrow> bool" where
  "does_coin_belong_to_wallet s coin wallet_id =
     (case wallet_info_for_puzzle_hash (derivation_paths s) (puzzle_hash coin) of
        None \<Rightarrow> False
      | Some (coin_wallet_id, wallet_type) \<Rightarrow> wallet_id = coin_wallet_id)"

text \<open>
  The loop \<open>amount = uint128(amount + record.coin.amount)\<close> over the unspent records:
  each step is checked by \<open>uint128\<close>.
\<close>

fun sum_unspent :: "int \<Rightarrow> WalletCoinRecord list \<Rightarrow> error + int" where
  "sum_unspent acc [] = mk_uint128 acc"
| "sum_unspent acc (r # rs) =
     bind_err (mk_uint128 (acc + uint (amount (wcr_coin r)))) (\<lambda>acc'. sum_unspent acc' rs)"

definition get_confirmed_balance_for_wallet ::
  "wallet_state \<Rightarrow> uint32 \<Rightarrow> WalletCoinRecord list option \<Rightarrow> error + int" where
  "get_confirmed_balance_for_wallet s wallet_id unspent_coin_records =
     sum_unspent 0
       (case unspent_coin_records of
          None \<Rightarrow> get_unspent_coins_for_wallet (coin_store s) wallet_id
        | Some rs \<Rightarrow> rs)"

text \<open>
  The two inner loops of \<open>get_unconfirmed_balance\<close> over one record, threading
  \<open>(removal_amount, addition_amount)\<close>, and the outer loop over the unconfirmed records.
\<close>

fun add_removals :: "int \<Rightarrow> Coin list \<Rightarrow> int" where
  "add_removals removal_amount [] = removal_amount"
| "add_removals removal_amount (removal # rest) =
     add_removals (removal_amount + uint (amount removal)) rest"

fun add_additions :: "wallet_state \<Rightarrow> uint32 \<Rightarrow> int \<Rightarrow> Coin list \<Rightarrow> int" where
  "add_additions s wallet_id addition_amount [] = addition_amount"
| "add_additions s wallet_id addition_amount (addition # rest) =
     add_additions s wallet_id
       (if does_coin_belong_to_wallet s addition wallet_id
        then addition_amount + uint (amount addition) else addition_amount) rest"

fun unconfirmed_amounts ::
  "wallet_state \<Rightarrow> uint32 \<Rightarrow> int \<times> int \<Rightarrow> TransactionRecord list \<Rightarrow> int \<times> int" where
  "unconfirmed_amounts s wallet_id acc [] = acc"
| "unconfirmed_amounts s wallet_id (removal_amount, addition_amount) (record # rest) =
     unconfirmed_amounts s wallet_id
       (add_removals removal_amount (removals record),
        add_additions s wallet_id addition_amount (additions record)) rest"

definition get_unconfirmed_balance ::
  "wallet_state \<Rightarrow> uint32 \<Rightarrow> WalletCoinRecord list option \<Rightarrow> error + int" where
  "get_unconfirmed_balance s wallet_id unspent_coin_records =
     bind_err (get_confirmed_balance_for_wallet s wallet_id unspent_coin_records)
       (\<lambda>confirmed.
          let unconfirmed_tx = get_unconfirmed_for_wallet (tx_store s) wallet_id;
              (removal_amount, addition_amount) = unconfirmed_amounts s wallet_id (0, 0) unconfirmed_tx
          in mk_uint128 (confirmed - removal_amount + addition_amount))"

text \<open>
  The three sums the balance is stated with: the amounts of the unspent records of the
  wallet, the removal amounts of its unconfirmed transactions, and the amounts of their
  additions that belong to the wallet.
\<close>

definition unspent_total :: "wallet_state \<Rightarrow> uint32 \<Rightarrow> int" where
  "unspent_total s w =
     sum_list (map (\<lambda>r. uint (amount (wcr_coin r))) (get_unspent_coins_for_wallet (coin_store s) w))"

definition unconfirmed_removal_total :: "wallet_state \<Rightarrow> uint32 \<Rightarrow> int" where
  "unconfirmed_removal_total s w =
     sum_list (map (\<lambda>t. sum_list (map (\<lambda>c. uint (amount c)) (removals t)))
       (get_unconfirmed_for_wallet (tx_store s) w))"

definition unconfirmed_addition_total :: "wallet_state \<Rightarrow> uint32 \<Rightarrow> int" where
  "unconfirmed_addition_total s w =
     sum_list (map (\<lambda>t. sum_list (map (\<lambda>c. uint (amount c))
         (filter (\<lambda>c. does_coin_belong_to_wallet s c w) (additions t))))
       (get_unconfirmed_for_wallet (tx_store s) w))"

section \<open>Events and reward detection\<close>

definition state_changed :: "string \<Rightarrow> uint32 \<Rightarrow> wallet_state \<Rightarrow> wallet_state" where
  "state_changed state wallet_id s =
     (if state_changed_callback s then s\<lparr>effects := effects s @ [StateChanged state wallet_id]\<rparr>
      else s)"

definition tx_pending_changed :: "wallet_state \<Rightarrow> wallet_state" where
  "tx_pending_changed s =
     (if pending_tx_callback s then s\<lparr>effects := effects s @ [TxPendingChanged]\<rparr> else s)"

text \<open>
  \<open>for i in range(0, 30)\<close>: stop at a negative height, answer True at the first height
  whose parent id is the coin's parent.
\<close>

fun reward_scan :: "(int \<Rightarrow> bytes32) \<Rightarrow> int \<Rightarrow> bytes32 \<Rightarrow> nat list \<Rightarrow> bool" where
  "reward_scan f created_height parent_id [] = False"
| "reward_scan f created_height parent_id (i # rest) =
     (let try_height = created_height - int i
      in if try_height < 0 then False
         else if f try_height = parent_id then True
         else reward_scan f created_height parent_id rest)"

definition is_pool_reward :: "env \<Rightarrow> uint32 \<Rightarrow> bytes32 \<Rightarrow> bool" where
  "is_pool_reward env created_height parent_id =
     reward_scan (pool_parent_id env) (uint created_height) parent_id [0..<30]"

definition is_farmer_reward :: "env \<Rightarrow> uint32 \<Rightarrow> bytes32 \<Rightarrow> bool" where
  "is_farmer_reward env created_height parent_id =
     reward_scan (farmer_parent_id env) (uint created_height) parent_id [0..<30]"

section \<open>coin_added\<close>

definition confirmed_tx ::
  "uint32 \<Rightarrow> uint64 \<Rightarrow> bytes32 \<Rightarrow> uint64 \<Rightarrow> uint64 \<Rightarrow> Coin list \<Rightarrow> Coin list \<Rightarrow> uint32 \<Rightarrow>
   TransactionType \<Rightarrow> bytes32 \<Rightarrow> TransactionRecord" where
  "confirmed_tx height time to_ph amt fee adds rems wallet_id ty n =
     \<lparr>confirmed_at_height = height, created_at_time = time, to_puzzle_hash = to_ph,
      tx_amount = amt, fee_amount = fee, confirmed = True, sent = 0, additions = adds,
      removals = rems, tx_wallet_id = wallet_id, sent_to = [], trade_id = None, tx_type = ty,
      tx_name = n\<rparr>"

text \<open>
  \<open>records\<close>: one entry per addition of an outgoing record that is this coin, in order.
\<close>

definition matching_outgoing ::
  "(Coin \<Rightarrow> bytes32) \<Rightarrow> Coin \<Rightarrow> TransactionRecord list \<Rightarrow> TransactionRecord list" where
  "matching_outgoing nm coin all_outgoing =
     concat (map (\<lambda>record. map (\<lambda>add_coin. record)
                   (filter (\<lambda>add_coin. nm add_coin = nm coin) (additions record))) all_outgoing)"

definition confirm_records :: "TransactionRecord list \<Rightarrow> uint32 \<Rightarrow> wallet_state \<Rightarrow> wallet_state" where
  "confirm_records records height s =
     fold (\<lambda>record s'. if \<not> confirmed record
                       then s'\<lparr>tx_store := set_confirmed (tx_name record) height (tx_store s')\<rparr>
                       else s') records s"

text \<open>
  The transaction-ledger part of \<open>coin_added\<close>: a reward record, the confirmation of the
  outgoing records the coin is an addition of, or an incoming record.
\<close>

definition coin_added_transactions ::
  "env \<Rightarrow> Coin \<Rightarrow> bool \<Rightarrow> bool \<Rightarrow> uint32 \<Rightarrow> uint32 \<Rightarrow> TransactionRecord list \<Rightarrow> bool \<Rightarrow>
   wallet_state \<Rightarrow> wallet_state" where
  "coin_added_transactions env coin coinbase fee_reward wallet_id height
       all_outgoing_transaction_records change s =
     (let nm = coin_name env;
          timestamp = get_timestamp_for_height env height
      in if coinbase \<or> fee_reward then
           (if \<not> change then
              s\<lparr>tx_store := add_transaction_record
                  (confirmed_tx height timestamp (puzzle_hash coin) (amount coin) 0 [coin] []
                     wallet_id (if coinbase then COINBASE_REWARD else FEE_REWARD) (nm coin))
                  (tx_store s)\<rparr>
            else s)
         else
           (let records = matching_outgoing nm coin all_outgoing_transaction_records
            in if length records > 0 then confirm_records records height s
               else if \<not> change then
                 (if amount coin > 0 then
                    s\<lparr>tx_store := add_transaction_record
                        (confirmed_tx height timestamp (puzzle_hash coin) (amount coin) 0 [coin] []
                           wallet_id INCOMING_TX (nm coin))
                        (tx_store s)\<rparr>
                  else s)
               else s))"

definition unspent_record :: "Coin \<Rightarrow> uint32 \<Rightarrow> bool \<Rightarrow> WalletType \<Rightarrow> uint32 \<Rightarrow> WalletCoinRecord" where
  "unspent_record coin height farm_reward wallet_type wallet_id =
     \<lparr>wcr_coin = coin, confirmed_height = height, spent_height = 0, wcr_spent = False,
      is_farm_reward = farm_reward, wcr_wallet_type = wallet_type, wcr_wallet_id = wallet_id\<rparr>"

definition coin_added ::
  "env \<Rightarrow> Coin \<Rightarrow> bool \<Rightarrow> bool \<Rightarrow> uint32 \<Rightarrow> WalletType \<Rightarrow> uint32 \<Rightarrow> TransactionRecord list \<Rightarrow>
   wallet_state \<Rightarrow> error + (WalletCoinRecord \<times> wallet_state)" where
  "coin_added env coin coinbase fee_reward wallet_id wallet_type height
       all_outgoing_transaction_records s =
     (let nm = coin_name env;
          change = (case get_coin_record nm (coin_store s) (parent_coin_info coin) of
                      None \<Rightarrow> False
                    | Some coin_record \<Rightarrow> wallet_type = wcr_wallet_type coin_record);
          farm_reward = (coinbase \<or> fee_reward);
          s1 = coin_added_transactions env coin coinbase fee_reward wallet_id height
                 all_outgoing_transaction_records change s;
          coin_record = unspent_record coin height farm_reward wallet_type wallet_id;
          s2 = s1\<lparr>coin_store := add_coin_record nm coin_record (coin_store s1)\<rparr>
      in if wallet_type = COLOURED_COIN \<or> wallet_type = DISTRIBUTED_ID then
           (case map_of (wallets s2) wallet_id of
              None \<Rightarrow> Inl KeyError
            | Some wallet \<Rightarrow>
                Inr (coin_record,
                     state_changed ''coin_added'' (wcr_wallet_id coin_record)
                       (s2\<lparr>effects := effects s2 @ [WalletCoinAdded wallet_id coin height]\<rparr>)))
         else Inr (coin_record, state_changed ''coin_added'' (wcr_wallet_id coin_record) s2))"

text \<open>The name and type of every row of the transaction ledger, in order.\<close>

definition names_and_types :: "TransactionRecord list \<Rightarrow> (bytes32 \<times> TransactionType) list" where
  "names_and_types T = map (\<lambda>t. (tx_name t, tx_type t)) T"

section \<open>new_coin_state\<close>

text \<open>
  \<open>coin_states.sort(key=lambda x: x.created_height)\<close>. Python's sort compares keys with
  \<open><\<close>, and \<open><\<close> between \<open>None\<close> and anything raises TypeError. The sort is stable; it
  is modelled as an insertion sort that makes at least one comparison with every element
  of a list of two or more.
\<close>

definition py_lt :: "uint32 option \<Rightarrow> uint32 option \<Rightarrow> error + bool" where
  "py_lt a b = (case a of None \<Rightarrow> Inl TypeError
                | Some x \<Rightarrow> (case b of None \<Rightarrow> Inl TypeError | Some y \<Rightarrow> Inr (x < y)))"

fun py_insert :: "CoinState \<Rightarrow> CoinState list \<Rightarrow> error + CoinState list" where
  "py_insert x [] = Inr [x]"
| "py_insert x (y # ys) =
     bind_err (py_lt (cs_created_height y) (cs_created_height x))
       (\<lambda>less. if less then bind_err (py_insert x ys) (\<lambda>zs. Inr (y # zs))
               else Inr (x # y # ys))"

fun py_sort :: "CoinState list \<Rightarrow> error + CoinState list" where
  "py_sort [] = Inr []"
| "py_sort (x # xs) = bind_err (py_sort xs) (py_insert x)"

text \<open>The lists the loop of \<open>new_coin_state\<close> appends to, and its per-wallet cache.\<close>

record loop_vars =
  added :: "WalletCoinRecord list"
  removed :: "CoinState list"
  trade_adds :: "CoinState list"
  trade_coin_removed :: "CoinState list"
  all_outgoing_per_wallet :: "(uint32 \<times> TransactionRecord list) list"

definition init_vars :: loop_vars where
  "init_vars = \<lparr>added = [], removed = [], trade_adds = [], trade_coin_removed = [],
                 all_outgoing_per_wallet = []\<rparr>"

definition set_used_up_to :: "uint32 \<Rightarrow> wallet_state \<Rightarrow> wallet_state" where
  "set_used_up_to i s =
     s\<lparr>last_used := Some (case last_used s of None \<Rightarrow> unat i | Some l \<Rightarrow> max l (unat i))\<rparr>"

text \<open>
  The wallet of a created coin: from the derivation index, else from the interested
  puzzle hashes (\<open>self.wallets[uint32(wallet_id)].type()\<close> raises KeyError for a wallet
  that is not registered), else none (\<open>continue\<close>).
\<close>

definition resolve_wallet ::
  "wallet_state \<Rightarrow> (uint32 \<times> WalletType) option \<Rightarrow> uint32 option \<Rightarrow>
   error + (uint32 \<times> WalletType) option" where
  "resolve_wallet s info interested_wallet_id =
     (case info of
        Some i \<Rightarrow> Inr (Some i)
      | None \<Rightarrow>
          (case interested_wallet_id of
             Some wallet_id \<Rightarrow>
               (case map_of (wallets s) wallet_id of
                  None \<Rightarrow> Inl KeyError
                | Some wallet \<Rightarrow> Inr (Some (wallet_id, w_type wallet)))
           | None \<Rightarrow> Inr None))"

definition process_created ::
  "env \<Rightarrow> CoinState \<Rightarrow> uint32 \<Rightarrow> loop_vars \<times> wallet_state \<Rightarrow> error + (loop_vars \<times> wallet_state)" where
  "process_created env coin_state created_height vs =
     (let (v, s) = vs;
          coin = cs_coin coin_state;
          info = wallet_info_for_puzzle_hash (derivation_paths s) (puzzle_hash coin);
          interested_wallet_id = map_of (interested_puzzle_hashes s) (puzzle_hash coin);
          farmer_reward = is_farmer_reward env created_height (parent_coin_info coin);
          pool_reward = (\<not> farmer_reward \<and> is_pool_reward env created_height (parent_coin_info coin));
          v1 = (if coin_name env coin \<in> set (trade_additions env)
                then v\<lparr>trade_adds := trade_adds v @ [coin_state]\<rparr> else v)
      in bind_err (resolve_wallet s info interested_wallet_id)
           (\<lambda>resolved. case resolved of
              None \<Rightarrow> Inr (v1, s)
            | Some (wallet_id, wallet_type) \<Rightarrow>
                (let cached = map_of (all_outgoing_per_wallet v1) wallet_id;
                     all_outgoing =
                       (case cached of
                          Some txs \<Rightarrow> txs
                        | None \<Rightarrow> get_all_transactions_for_wallet (tx_store s) wallet_id (Some OUTGOING_TX));
                     v2 = (case cached of
                             Some txs \<Rightarrow> v1
                           | None \<Rightarrow> v1\<lparr>all_outgoing_per_wallet :=
                                         all_outgoing_per_wallet v1 @ [(wallet_id, all_outgoing)]\<rparr>)
                 in bind_err
                      (coin_added env coin pool_reward farmer_reward wallet_id wallet_type
                         created_height all_outgoing s)
                      (\<lambda>(added_coin_record, s1).
                         Inr (v2\<lparr>added := added v2 @ [added_coin_record]\<rparr>,
                              (case index_for_puzzle_hash (derivation_paths s1) (puzzle_hash coin) of
                                 None \<Rightarrow> s1
                               | Some derivation_index \<Rightarrow> set_used_up_to derivation_index s1))))))"

text \<open>
  The loop over the fetched children: every child without a derivation record of ours
  overwrites \<open>to_puzzle_hash\<close> and adds to \<open>amount\<close>.
\<close>

fun scan_additions ::
  "DerivationRecord list \<Rightarrow> bytes32 option \<times> int \<Rightarrow> Coin list \<Rightarrow> bytes32 option \<times> int" where
  "scan_additions D acc [] = acc"
| "scan_additions D (to_ph, amt) (coin # rest) =
     scan_additions D
       (if get_derivation_record_for_puzzle_hash D (puzzle_hash coin) = None
        then (Some (puzzle_hash coin), amt + uint (amount coin))
        else (to_ph, amt)) rest"

definition draw_token :: "env \<Rightarrow> wallet_state \<Rightarrow> bytes32 \<times> wallet_state" where
  "draw_token env s = (token_bytes env (tokens_drawn s), s\<lparr>tokens_drawn := tokens_drawn s + 1\<rparr>)"

text \<open>
  A coin that arrives created and spent, with no record in the ledger and a wallet known
  from the derivation index (the branch \<open>if record is None: if info is not None\<close>).
  First the spent coin record is written and, unless the coin is change, an incoming
  transaction for its creation.
\<close>

definition spent_record ::
  "env \<Rightarrow> Coin \<Rightarrow> uint32 \<Rightarrow> uint32 \<Rightarrow> WalletType \<Rightarrow> uint32 \<Rightarrow> WalletCoinRecord" where
  "spent_record env coin created_height spent_h wallet_type wallet_id =
     (let farmer_reward = is_farmer_reward env created_height (parent_coin_info coin);
          pool_reward = (\<not> farmer_reward \<and> is_pool_reward env created_height (parent_coin_info coin))
      in \<lparr>wcr_coin = coin, confirmed_height = created_height, spent_height = spent_h,
          wcr_spent = True, is_farm_reward = (farmer_reward \<or> pool_reward),
          wcr_wallet_type = wallet_type, wcr_wallet_id = wallet_id\<rparr>)"

definition first_seen_change ::
  "env \<Rightarrow> Coin \<Rightarrow> uint32 \<Rightarrow> uint32 \<Rightarrow> WalletType \<Rightarrow> uint32 \<Rightarrow> wallet_state \<Rightarrow> bool" where
  "first_seen_change env coin created_height spent_h wallet_type wallet_id s =
     (case get_coin_record (coin_name env)
             (add_coin_record (coin_name env)
                (spent_record env coin created_height spent_h wallet_type wallet_id) (coin_store s))
             (parent_coin_info coin) of
        None \<Rightarrow> False
      | Some coin_record \<Rightarrow> wallet_type = wcr_wallet_type coin_record)"

definition record_first_seen ::
  "env \<Rightarrow> Coin \<Rightarrow> uint32 \<Rightarrow> uint32 \<Rightarrow> WalletType \<Rightarrow> uint32 \<Rightarrow> wallet_state \<Rightarrow> wallet_state" where
  "record_first_seen env coin created_height spent_h wallet_type wallet_id s =
     (let record = spent_record env coin created_height spent_h wallet_type wallet_id;
          s1 = s\<lparr>coin_store := add_coin_record (coin_name env) record (coin_store s)\<rparr>;
          change = first_seen_change env coin created_height spent_h wallet_type wallet_id s
      in if \<not> change then
           (let (n, s') = draw_token env s1
            in s'\<lparr>tx_store := add_transaction_record
                  (confirmed_tx created_height (get_timestamp_for_height env created_height)
                     (puzzle_hash coin) (amount coin) 0 [coin] [] wallet_id INCOMING_TX n)
                  (tx_store s')\<rparr>)
         else s1)"

text \<open>
  Then the children of the spend are fetched and, when there are any, the outgoing
  transaction is built from them and from the reveal's reserved fee.
\<close>

definition synthesize_outgoing ::
  "env \<Rightarrow> Coin \<Rightarrow> uint32 \<Rightarrow> uint32 \<Rightarrow> wallet_state \<Rightarrow> error + wallet_state" where
  "synthesize_outgoing env coin spent_h wallet_id s =
     (case get_full_node_peer env of
        None \<Rightarrow> Inl AssertionError
      | Some node \<Rightarrow>
          (let children = fetch_children env (coin_name env coin);
               adds = map cs_coin children
           in case adds of
                [] \<Rightarrow> Inr s
              | first # others \<Rightarrow>
                  (let fee = reserved_fee env spent_h coin;
                       (found, amt) = scan_additions (derivation_paths s) (None, 0) adds;
                       to_ph = (case found of None \<Rightarrow> puzzle_hash first | Some ph \<Rightarrow> ph)
                   in bind_err (mk_uint64 amt)
                        (\<lambda>amt64. bind_err (mk_uint64 fee)
                           (\<lambda>fee64.
                              let (n, s') = draw_token env s
                              in Inr (s'\<lparr>tx_store := add_transaction_record
                                        (confirmed_tx spent_h (get_timestamp_for_height env spent_h)
                                           to_ph amt64 fee64 adds [coin] wallet_id OUTGOING_TX n)
                                        (tx_store s')\<rparr>))))))"

definition first_seen_spent ::
  "env \<Rightarrow> CoinState \<Rightarrow> uint32 \<Rightarrow> uint32 \<Rightarrow> uint32 \<Rightarrow> WalletType \<Rightarrow> wallet_state \<Rightarrow>
   error + wallet_state" where
  "first_seen_spent env coin_state created_height spent_h wallet_id wallet_type s =
     synthesize_outgoing env (cs_coin coin_state) spent_h wallet_id
       (record_first_seen env (cs_coin coin_state) created_height spent_h wallet_type wallet_id s)"

text \<open>The children whose puzzle hash has no derivation record of ours, in order.\<close>

definition foreign_children :: "DerivationRecord list \<Rightarrow> Coin list \<Rightarrow> Coin list" where
  "foreign_children D coins =
     filter (\<lambda>c. get_derivation_record_for_puzzle_hash D (puzzle_hash c) = None) coins"

definition confirm_removals ::
  "(Coin \<Rightarrow> bytes32) \<Rightarrow> TransactionRecord list \<Rightarrow> bytes32 \<Rightarrow> uint32 \<Rightarrow> wallet_state \<Rightarrow> wallet_state" where
  "confirm_removals nm all_unconfirmed n spent_h s =
     fold (\<lambda>unconfirmed_record s'.
             fold (\<lambda>rem_coin s''.
                     if nm rem_coin = n
                     then s''\<lparr>tx_store := set_confirmed (tx_name unconfirmed_record) spent_h (tx_store s'')\<rparr>
                     else s'')
               (removals unconfirmed_record) s')
       all_unconfirmed s"

definition process_spent ::
  "env \<Rightarrow> TransactionRecord list \<Rightarrow> CoinState \<Rightarrow> uint32 \<Rightarrow> uint32 \<Rightarrow>
   loop_vars \<times> wallet_state \<Rightarrow> error + (loop_vars \<times> wallet_state)" where
  "process_spent env all_unconfirmed coin_state created_height spent_h vs =
     (let (v, s) = vs;
          nm = coin_name env;
          coin = cs_coin coin_state;
          info = wallet_info_for_puzzle_hash (derivation_paths s) (puzzle_hash coin);
          record = get_coin_record nm (coin_store s) (nm coin);
          v1 = (if nm coin \<in> set (trade_removals env)
                then v\<lparr>trade_coin_removed := trade_coin_removed v @ [coin_state]\<rparr> else v)
      in bind_err
           (case record of
              None \<Rightarrow>
                (case info of
                   None \<Rightarrow> Inr s
                 | Some (wallet_id, wallet_type) \<Rightarrow>
                     first_seen_spent env coin_state created_height spent_h wallet_id wallet_type s)
            | Some r \<Rightarrow> Inr (s\<lparr>coin_store := set_spent nm (nm coin) spent_h (coin_store s)\<rparr>))
           (\<lambda>s1. Inr (v1\<lparr>removed := removed v1 @ [coin_state]\<rparr>,
                       confirm_removals nm all_unconfirmed (nm coin) spent_h s1)))"

text \<open>One iteration of \<open>for coin_state in coin_states\<close>.\<close>

definition process_coin_state ::
  "env \<Rightarrow> TransactionRecord list \<Rightarrow> CoinState \<Rightarrow> loop_vars \<times> wallet_state \<Rightarrow>
   error + (loop_vars \<times> wallet_state)" where
  "process_coin_state env all_unconfirmed coin_state vs =
     (case cs_created_height coin_state of
        None \<Rightarrow> Inr vs
      | Some created_height \<Rightarrow>
          (case cs_spent_height coin_state of
             None \<Rightarrow> process_created env coin_state created_height vs
           | Some spent_h \<Rightarrow> process_spent env all_unconfirmed coin_state created_height spent_h vs))"

fun process_all ::
  "env \<Rightarrow> TransactionRecord list \<Rightarrow> CoinState list \<Rightarrow> loop_vars \<times> wallet_state \<Rightarrow>
   error + (loop_vars \<times> wallet_state)" where
  "process_all env all_unconfirmed [] vs = Inr vs"
| "process_all env all_unconfirmed (coin_state # rest) vs =
     bind_err (process_coin_state env all_unconfirmed coin_state vs)
       (process_all env all_unconfirmed rest)"

section \<open>reorg_rollback\<close>

text \<open>
  The removal loop: \<open>user_store.delete_wallet\<close>, \<open>self.wallets.pop(wallet_id)\<close>, and
  \<open>self.new_peak_callbacks.pop(wallet_id)\<close>, which raises KeyError when no callback was
  registered for the wallet.
\<close>

fun remove_wallets :: "uint32 list \<Rightarrow> wallet_state \<Rightarrow> error + wallet_state" where
  "remove_wallets [] s = Inr s"
| "remove_wallets (wallet_id # rest) s =
     (let s1 = s\<lparr>effects := effects s @ [DeleteWallet wallet_id],
                  wallets := filter (\<lambda>kv. fst kv \<noteq> wallet_id) (wallets s)\<rparr>
      in if wallet_id \<in> set (new_peak_callbacks s1)
         then remove_wallets rest (s1\<lparr>new_peak_callbacks := removeAll wallet_id (new_peak_callbacks s1)\<rparr>)
         else Inl KeyError)"

definition reorg_rollback :: "uint32 \<Rightarrow> wallet_state \<Rightarrow> error + wallet_state" where
  "reorg_rollback height s =
     (let s1 = s\<lparr>coin_store := coin_rollback_to_block height (coin_store s)\<rparr>;
          reorged = get_transaction_above (tx_store s1) height;
          s2 = s1\<lparr>tx_store := tx_rollback_to_block height (tx_store s1)\<rparr>;
          s3 = fold (\<lambda>record s'.
                       if tx_type record \<in> {OUTGOING_TX, OUTGOING_TRADE, INCOMING_TRADE}
                       then s'\<lparr>tx_store := tx_reorged record (tx_store s')\<rparr> else s')
                 reorged s2;
          s4 = tx_pending_changed s3;
          pool_wallets = filter (\<lambda>kv. w_type (snd kv) = POOLING_WALLET) (wallets s4);
          s5 = s4\<lparr>effects := effects s4 @ map (\<lambda>kv. WalletRewind (fst kv) height) pool_wallets\<rparr>;
          remove_ids = map fst (filter (\<lambda>kv. rewind (snd kv) height) pool_wallets)
      in remove_wallets remove_ids s5)"

text \<open>
  After the loop: the trade manager is told of the trade coins, additions first, and the
  call returns \<open>(added, removed)\<close>.
\<close>

definition finish_batch ::
  "loop_vars \<times> wallet_state \<Rightarrow> (WalletCoinRecord list \<times> CoinState list) \<times> wallet_state" where
  "finish_batch vs =
     (let (v, s2) = vs
      in ((added v, removed v),
          s2\<lparr>effects := effects s2
                @ map CoinsOfInterestFarmed (trade_adds v)
                @ map CoinsOfInterestFarmed (trade_coin_removed v)\<rparr>))"

definition new_coin_state ::
  "env \<Rightarrow> CoinState list \<Rightarrow> uint32 option \<Rightarrow> uint32 option \<Rightarrow> wallet_state \<Rightarrow>
   error + ((WalletCoinRecord list \<times> CoinState list) \<times> wallet_state)" where
  "new_coin_state env coin_states fork_height current_height s =
     bind_err (py_sort coin_states)
       (\<lambda>sorted.
          let all_unconfirmed = get_all_unconfirmed (tx_store s)
          in bind_err
               (case fork_height of
                  None \<Rightarrow> Inr s
                | Some f \<Rightarrow>
                    (case current_height of
                       None \<Rightarrow> Inr s
                     | Some c \<Rightarrow> if uint f \<noteq> uint c - 1 then reorg_rollback f s else Inr s))
               (\<lambda>s1. bind_err (process_all env all_unconfirmed sorted (init_vars, s1))
                  (\<lambda>vs. Inr (finish_batch vs))))"

text \<open>
  A sequence of batches, each a call \<open>new_coin_state(coin_states, fork_height,
  current_height)\<close> on the state the one before returned.
\<close>

fun apply_batches ::
  "env \<Rightarrow> (CoinState list \<times> uint32 option \<times> uint32 option) list \<Rightarrow> wallet_state \<Rightarrow>
   error + wallet_state" where
  "apply_batches env [] s = Inr s"
| "apply_batches env (batch # rest) s =
     bind_err (new_coin_state env (fst batch) (fst (snd batch)) (snd (snd batch)) s)
       (\<lambda>result. apply_batches env rest (snd result))"

text \<open>
  What a rollback to height \<open>h\<close> can undo of a coin state, for a ledger \<open>L0\<close> that was there
  before: the spend is above \<open>h\<close> and every record of \<open>L0\<close> for the coin is unspent; a coin
  that \<open>L0\<close> has no record of is created above \<open>h\<close>; and a coin that arrives unspent has no
  record in \<open>L0\<close>.
\<close>

definition absent :: "(Coin \<Rightarrow> bytes32) \<Rightarrow> WalletCoinRecord list \<Rightarrow> bytes32 \<Rightarrow> bool" where
  "absent nm L0 n = list_all (\<lambda>r. nm (wcr_coin r) \<noteq> n) L0"

definition unspent_in :: "(Coin \<Rightarrow> bytes32) \<Rightarrow> WalletCoinRecord list \<Rightarrow> bytes32 \<Rightarrow> bool" where
  "unspent_in nm L0 n =
     list_all (\<lambda>r. nm (wcr_coin r) = n \<longrightarrow> spent_height r = 0 \<and> \<not> wcr_spent r) L0"

definition above_height ::
  "(Coin \<Rightarrow> bytes32) \<Rightarrow> uint32 \<Rightarrow> WalletCoinRecord list \<Rightarrow> CoinState \<Rightarrow> bool" where
  "above_height nm h L0 coin_state =
     (case cs_created_height coin_state of
        None \<Rightarrow> True
      | Some created \<Rightarrow>
          (case cs_spent_height coin_state of
             None \<Rightarrow> h < created \<and> absent nm L0 (nm (cs_coin coin_state))
           | Some spent_h \<Rightarrow>
               h < spent_h \<and> unspent_in nm L0 (nm (cs_coin coin_state)) \<and>
               (absent nm L0 (nm (cs_coin coin_state)) \<longrightarrow> h < created)))"

definition batch_above_height ::
  "(Coin \<Rightarrow> bytes32) \<Rightarrow> uint32 \<Rightarrow> WalletCoinRecord list \<Rightarrow>
   CoinState list \<times> uint32 option \<times> uint32 option \<Rightarrow> bool" where
  "batch_above_height nm h L0 batch =
     (list_all (above_height nm h L0) (fst batch) \<and>
      (case fst (snd batch) of None \<Rightarrow> True | Some fork_height \<Rightarrow> h \<le> fork_height))"

section \<open>create_more_puzzle_hashes\<close>

text \<open>
  Modelled from the spec: the queries and the insertion of the derivation index (section
  4.1). \<open>last_used\<close> is the highest index ever consumed, \<open>None\<close> while no index has been;
  \<open>get_unused_derivation_path\<close> is the lowest index above it that has a derivation;
  the last derivation path is the highest index generated, overall or for one wallet;
  \<open>add_derivation_paths\<close> inserts the records, one row per wallet and index.
\<close>

definition derivation_index :: "DerivationRecord \<Rightarrow> nat" where
  "derivation_index d = unat (dr_index d)"

fun lowest :: "nat list \<Rightarrow> nat option" where
  "lowest [] = None"
| "lowest (x # xs) = Some (fold min xs x)"

fun highest :: "nat list \<Rightarrow> nat option" where
  "highest [] = None"
| "highest (x # xs) = Some (fold max xs x)"

definition get_unused_derivation_path :: "wallet_state \<Rightarrow> nat option" where
  "get_unused_derivation_path s =
     lowest (filter (\<lambda>i. case last_used s of None \<Rightarrow> True | Some l \<Rightarrow> l < i)
               (map derivation_index (derivation_paths s)))"

definition get_last_derivation_path :: "wallet_state \<Rightarrow> nat option" where
  "get_last_derivation_path s = highest (map derivation_index (derivation_paths s))"

definition get_last_derivation_path_for_wallet :: "wallet_state \<Rightarrow> uint32 \<Rightarrow> nat option" where
  "get_last_derivation_path_for_wallet s wallet_id =
     highest (map derivation_index (filter (\<lambda>d. dr_wallet_id d = wallet_id) (derivation_paths s)))"

definition derivation_key :: "DerivationRecord \<Rightarrow> uint32 \<times> uint32" where
  "derivation_key d = (dr_wallet_id d, dr_index d)"

definition add_derivation_path :: "DerivationRecord \<Rightarrow> DerivationRecord list \<Rightarrow> DerivationRecord list" where
  "add_derivation_path d D =
     (if derivation_key d \<in> derivation_key ` set D
      then map (\<lambda>d'. if derivation_key d' = derivation_key d then d else d') D
      else D @ [d])"

definition add_derivation_paths ::
  "DerivationRecord list \<Rightarrow> DerivationRecord list \<Rightarrow> DerivationRecord list" where
  "add_derivation_paths records D = fold add_derivation_path records D"

text \<open>
  \<open>get_derivation_index(pubkey)\<close>: the first index below \<open>max_depth = 1000\<close> whose
  public key is the given one (\<open>None\<close> for the source's -1).
\<close>

definition get_derivation_index :: "env \<Rightarrow> nat \<Rightarrow> nat option" where
  "get_derivation_index env pubkey = find (\<lambda>i. get_public_key env i = pubkey) [0..<1000]"

text \<open>
  The body of \<open>for index in range(start_index, unused + to_generate)\<close> for a wallet that
  is neither a pool wallet nor rate-limited: \<open>uint32(index)\<close> raises ValueError from
  \<open>2^32\<close> on, and a wallet that returns no puzzle ends the loop (\<open>break\<close>).
\<close>

fun derive_standard :: "env \<Rightarrow> WalletObj \<Rightarrow> nat list \<Rightarrow> error + DerivationRecord list" where
  "derive_standard env target_wallet [] = Inr []"
| "derive_standard env target_wallet (index # rest) =
     bind_err (mk_uint32 (int index))
       (\<lambda>index32.
          let pubkey = get_public_key env index
          in case puzzle_for_pk target_wallet pubkey of
               None \<Rightarrow> Inr []
             | Some puzzlehash \<Rightarrow>
                 bind_err (derive_standard env target_wallet rest)
                   (\<lambda>more. Inr (\<lparr>dr_index = index32, dr_puzzle_hash = puzzlehash, dr_pubkey = pubkey,
                                   dr_wallet_type = w_type target_wallet,
                                   dr_wallet_id = w_id target_wallet\<rparr> # more)))"

text \<open>
  A rate-limited wallet leaves the loop in its first iteration, with at most the one record
  at the index of its own key; \<open>rl_puzzle.get_tree_hash()\<close> on no puzzle raises
  AttributeError.
\<close>

definition derive_rate_limited :: "env \<Rightarrow> WalletObj \<Rightarrow> error + DerivationRecord list" where
  "derive_rate_limited env target_wallet =
     (if \<not> rl_initialized target_wallet then Inr []
      else
        (let rl_pubkey = (if rl_type target_wallet = ''user'' then rl_user_pubkey target_wallet
                          else rl_admin_pubkey target_wallet)
         in case puzzle_for_pk target_wallet rl_pubkey of
              None \<Rightarrow> Inl AttributeError
            | Some ph \<Rightarrow>
                (case get_derivation_index env rl_pubkey of
                   None \<Rightarrow> Inr []
                 | Some rl_index \<Rightarrow>
                     bind_err (mk_uint32 (int rl_index))
                       (\<lambda>index32. Inr [\<lparr>dr_index = index32, dr_puzzle_hash = ph, dr_pubkey = rl_pubkey,
                                         dr_wallet_type = w_type target_wallet,
                                         dr_wallet_id = w_id target_wallet\<rparr>]))))"

definition derive_for_wallet :: "env \<Rightarrow> WalletObj \<Rightarrow> nat list \<Rightarrow> error + DerivationRecord list" where
  "derive_for_wallet env target_wallet indices =
     (if indices = [] then Inr []
      else if w_type target_wallet = POOLING_WALLET then Inr []
      else if w_type target_wallet = RATE_LIMITED then derive_rate_limited env target_wallet
      else derive_standard env target_wallet indices)"

definition unused_or_last :: "wallet_state \<Rightarrow> nat" where
  "unused_or_last s =
     (case get_unused_derivation_path s of
        Some unused \<Rightarrow> unused
      | None \<Rightarrow> (case get_last_derivation_path s of Some l \<Rightarrow> l | None \<Rightarrow> 0))"

definition to_generate :: "env \<Rightarrow> wallet_state \<Rightarrow> nat" where
  "to_generate env s =
     (if new_wallet s then initial_num_public_keys_new_wallet env else initial_num_public_keys env)"

definition start_index :: "wallet_state \<Rightarrow> bool \<Rightarrow> uint32 \<Rightarrow> nat" where
  "start_index s from_zero wallet_id =
     (if from_zero then 0
      else (case get_last_derivation_path_for_wallet s wallet_id of None \<Rightarrow> 0 | Some l \<Rightarrow> l + 1))"

text \<open>\<open>for wallet_id in targets\<close>, with \<open>bound = unused + to_generate\<close>.\<close>

fun derive_targets ::
  "env \<Rightarrow> bool \<Rightarrow> nat \<Rightarrow> uint32 list \<Rightarrow> wallet_state \<Rightarrow> error + wallet_state" where
  "derive_targets env from_zero bound [] s = Inr s"
| "derive_targets env from_zero bound (wallet_id # rest) s =
     (case map_of (wallets s) wallet_id of
        None \<Rightarrow> Inl KeyError
      | Some target_wallet \<Rightarrow>
          bind_err (derive_for_wallet env target_wallet [start_index s from_zero wallet_id..<bound])
            (\<lambda>paths.
               derive_targets env from_zero bound rest
                 (s\<lparr>derivation_paths := add_derivation_paths paths (derivation_paths s),
                    effects := effects s @ [SubscribeToNewPuzzleHash (map dr_puzzle_hash paths)]\<rparr>)))"

definition create_more_puzzle_hashes :: "env \<Rightarrow> bool \<Rightarrow> wallet_state \<Rightarrow> error + wallet_state" where
  "create_more_puzzle_hashes env from_zero s =
     (let targets = map fst (wallets s);
          unused = unused_or_last s
      in bind_err (derive_targets env from_zero (unused + to_generate env s) targets s)
           (\<lambda>s'. if unused > 0
                  then bind_err (mk_uint32 (int unused - 1)) (\<lambda>i. Inr (set_used_up_to i s'))
                  else Inr s'))"

section \<open>Singleton history engine\<close>


















section \<open>Example data\<close>

definition mk_coin :: "bytes32 \<Rightarrow> bytes32 \<Rightarrow> uint64 \<Rightarrow> Coin" where
  "mk_coin p ph a = \<lparr>parent_coin_info = p, puzzle_hash = ph, amount = a\<rparr>"

definition empty_state :: wallet_state where
  "empty_state =
     \<lparr>coin_store = [], tx_store = [], derivation_paths = [], last_used = None,
      interested_puzzle_hashes = [], wallets = [], new_peak_callbacks = [],
      new_wallet = False, state_changed_callback = True, pending_tx_callback = True,
      tokens_drawn = 0, effects = []\<rparr>"

definition ex_derivation :: "uint32 \<Rightarrow> bytes32 \<Rightarrow> uint32 \<Rightarrow> DerivationRecord" where
  "ex_derivation i ph w =
     \<lparr>dr_index = i, dr_puzzle_hash = ph, dr_pubkey = unat i, dr_wallet_type = STANDARD_WALLET,
      dr_wallet_id = w\<rparr>"

definition pending_tx :: "bytes32 \<Rightarrow> uint32 \<Rightarrow> Coin list \<Rightarrow> Coin list \<Rightarrow> TransactionRecord" where
  "pending_tx n w adds rems =
     \<lparr>confirmed_at_height = 0, created_at_time = 0, to_puzzle_hash = 0, tx_amount = 0,
      fee_amount = 0, confirmed = False, sent = 0, additions = adds, removals = rems,
      tx_wallet_id = w, sent_to = [], trade_id = None, tx_type = OUTGOING_TX, tx_name = n\<rparr>"

definition ex_env :: env where
  "ex_env =
     \<lparr>coin_name = (\<lambda>c. 1000 * parent_coin_info c + puzzle_hash c),
      farmer_parent_id = (\<lambda>h. 999998), pool_parent_id = (\<lambda>h. 999999),
      get_public_key = (\<lambda>i. i), get_full_node_peer = Some 0,
      fetch_children = (\<lambda>n. []), reserved_fee = (\<lambda>h c. 0),
      get_timestamp_for_height = (\<lambda>h. 1600000000),
      token_bytes = (\<lambda>n. 5000 + word_of_nat n),
      trade_removals = [], trade_additions = [],
      initial_num_public_keys = 8, initial_num_public_keys_new_wallet = 8\<rparr>"

definition reorged_cs :: CoinState where
  "reorged_cs = \<lparr>cs_coin = mk_coin 1 2 3, cs_spent_height = None, cs_created_height = None\<rparr>"

definition created_cs :: CoinState where
  "created_cs = \<lparr>cs_coin = mk_coin 4 5 6, cs_spent_height = None, cs_created_height = Some 10\<rparr>"




text \<open>
  Wallet registries for the derivation bootstrap: a wallet that derives puzzle hash
  \<open>7000 + pubkey\<close>, and one that returns no puzzle.
\<close>

definition ex_wallet :: "uint32 \<Rightarrow> (nat \<Rightarrow> bytes32 option) \<Rightarrow> WalletObj" where
  "ex_wallet i pz =
     \<lparr>w_type = STANDARD_WALLET, w_id = i, puzzle_for_pk = pz, rewind = (\<lambda>h. False),
      rl_initialized = False, rl_type = '''', rl_user_pubkey = 0, rl_admin_pubkey = 0\<rparr>"

definition boot_state :: wallet_state where
  "boot_state = empty_state\<lparr>wallets := [(1, ex_wallet 1 (\<lambda>pk. Some (7000 + word_of_nat pk)))]\<rparr>"

definition mute_state :: wallet_state where
  "mute_state = empty_state\<lparr>wallets := [(1, ex_wallet 1 (\<lambda>pk. None))]\<rparr>"

definition boot_result :: wallet_state where
  "boot_result =
     boot_state
       \<lparr>derivation_paths :=
          map (\<lambda>i. \<lparr>dr_index = word_of_nat i, dr_puzzle_hash = 7000 + word_of_nat i, dr_pubkey = i,
                    dr_wallet_type = STANDARD_WALLET, dr_wallet_id = 1\<rparr>) [0, 1, 2, 3, 4, 5, 6, 7],
        effects := [SubscribeToNewPuzzleHash [7000, 7001, 7002, 7003, 7004, 7005, 7006, 7007]]\<rparr>"


text \<open>
  Wallet 1 owns puzzle hash 7 and has no coin yet. The coin of 10 at puzzle hash 7 arrives
  created at 90 and spent at 100; its spend pays 2 to puzzle hash 8, 1 to puzzle hash 9 and
  returns 6 to puzzle hash 7, with a fee of 1.
\<close>

definition owner_state :: wallet_state where
  "owner_state = empty_state\<lparr>derivation_paths := [ex_derivation 0 7 1]\<rparr>"

definition spent_cs :: CoinState where
  "spent_cs = \<lparr>cs_coin = mk_coin 100 7 10, cs_spent_height = Some 100, cs_created_height = Some 90\<rparr>"

definition child_cs :: "bytes32 \<Rightarrow> uint64 \<Rightarrow> CoinState" where
  "child_cs ph a = \<lparr>cs_coin = mk_coin 100007 ph a, cs_spent_height = None, cs_created_height = Some 100\<rparr>"

definition two_payees_env :: env where
  "two_payees_env =
     ex_env\<lparr>fetch_children := (\<lambda>n. [child_cs 8 2, child_cs 9 1, child_cs 7 6]),
            reserved_fee := (\<lambda>h c. 1)\<rparr>"

text \<open>
  Wallet 1 owns puzzle hash 7. It holds one unspent coin of 10 and has a pending
  transaction that spends it, pays 7 to the foreign puzzle hash 9 and returns 3 as change.
\<close>

definition balance_state :: wallet_state where
  "balance_state =
     empty_state
       \<lparr>coin_store :=
          [\<lparr>wcr_coin = mk_coin 100 7 10, confirmed_height = 5, spent_height = 0, wcr_spent = False,
            is_farm_reward = False, wcr_wallet_type = STANDARD_WALLET, wcr_wallet_id = 1\<rparr>],
        tx_store := [pending_tx 50 1 [mk_coin 101 9 7, mk_coin 101 7 3] [mk_coin 100 7 10]],
        derivation_paths := [ex_derivation 0 7 1]\<rparr>"

section \<open>Properties of the initial sort\<close>

lemma py_lt_cases: "py_lt a b = Inl e \<Longrightarrow> e = TypeError"
  by (auto simp: py_lt_def split: option.splits)

lemma py_insert_err: "py_insert x ys = Inl e \<Longrightarrow> e = TypeError"
  by (induction ys) (auto simp: bind_err_def split: sum.splits if_splits dest: py_lt_cases)

lemma py_sort_err: "py_sort xs = Inl e \<Longrightarrow> e = TypeError"
  by (induction xs) (auto simp: bind_err_def split: sum.splits dest: py_insert_err)

lemma py_insert_length: "py_insert x ys = Inr zs \<Longrightarrow> length zs = Suc (length ys)"
  by (induction ys arbitrary: zs) (auto simp: bind_err_def split: sum.splits if_splits)

lemma py_sort_length: "py_sort xs = Inr zs \<Longrightarrow> length zs = length xs"
  by (induction xs arbitrary: zs) (auto simp: bind_err_def split: sum.splits dest: py_insert_length)

lemma py_insert_compares_head:
  "py_insert x (y # ys) = Inr zs \<Longrightarrow> cs_created_height x \<noteq> None \<and> cs_created_height y \<noteq> None"
  by (auto simp: bind_err_def py_lt_def split: option.splits sum.splits)

text \<open>A sort of two or more states that returns has compared, and so seen a height on, each.\<close>

lemma py_sort_ok_keys:
  "py_sort xs = Inr zs \<Longrightarrow> 2 \<le> length xs \<Longrightarrow> \<forall>x \<in> set xs. cs_created_height x \<noteq> None"
proof (induction xs arbitrary: zs)
  case Nil
  then show ?case by simp
next
  case (Cons x xs)
  from Cons.prems(1) obtain ys where ys: "py_sort xs = Inr ys" and ins: "py_insert x ys = Inr zs"
    by (auto simp: bind_err_def split: sum.splits)
  from Cons.prems(2) have "xs \<noteq> []" by auto
  with py_sort_length[OF ys] obtain y ys' where yy: "ys = y # ys'" by (cases ys) auto
  from py_insert_compares_head ins yy
  have kx: "cs_created_height x \<noteq> None" and ky: "cs_created_height y \<noteq> None" by blast+
  show ?case
  proof (cases "2 \<le> length xs")
    case True
    from Cons.IH[OF ys True] kx show ?thesis by simp
  next
    case False
    with \<open>xs \<noteq> []\<close> have "length xs = Suc 0" by (cases xs) (auto simp: not_le)
    then obtain x' where "xs = [x']" by (auto simp: length_Suc_conv)
    with ys yy ky kx show ?thesis by (simp add: bind_err_def)
  qed
qed

lemma py_sort_raises:
  assumes "2 \<le> length xs" and "\<exists>x \<in> set xs. cs_created_height x = None"
  shows "py_sort xs = Inl TypeError"
proof (cases "py_sort xs")
  case (Inl e)
  with py_sort_err show ?thesis by blast
next
  case (Inr zs)
  from py_sort_ok_keys[OF Inr assms(1)] assms(2) show ?thesis by blast
qed

text \<open>
  C9. A batch of two or more coin states of which one has no \<open>created_height\<close> makes the
  initial sort compare \<open>None\<close>: \<open>new_coin_state\<close> raises TypeError before anything is
  processed, so the whole batch fails.
\<close>

theorem new_coin_state_sort_raises:
  assumes "2 \<le> length coin_states"
    and "\<exists>x \<in> set coin_states. cs_created_height x = None"
  shows "new_coin_state env coin_states fork_height current_height s = Inl TypeError"
  using py_sort_raises[OF assms] by (simp add: new_coin_state_def bind_err_def)

text \<open>
  A created coin and a reorged-out one in one batch raise; the reorged-out state alone is
  passed over and the call returns.
\<close>

theorem new_coin_state_sort_raises_witness:
  "2 \<le> length [created_cs, reorged_cs] \<and>
   cs_created_height reorged_cs = None \<and>
   new_coin_state ex_env [created_cs, reorged_cs] None None empty_state = Inl TypeError \<and>
   new_coin_state ex_env [reorged_cs] None None empty_state = Inr (([], []), empty_state)"
proof -
  have a: "2 \<le> length [created_cs, reorged_cs]" by simp
  have b: "\<exists>x \<in> set [created_cs, reorged_cs]. cs_created_height x = None"
    by (simp add: reorged_cs_def)
  have c: "new_coin_state ex_env [reorged_cs] None None empty_state = Inr (([], []), empty_state)"
    by (simp add: new_coin_state_def bind_err_def process_coin_state_def reorged_cs_def
        finish_batch_def init_vars_def empty_state_def)
  from a c new_coin_state_sort_raises[OF a b] show ?thesis by (simp add: reorged_cs_def)
qed




section \<open>Properties of the tables\<close>

lemma find_append_new:
  "find P L = None \<Longrightarrow> P r \<Longrightarrow> find P (L @ [r]) = Some r"
  by (induction L) (auto split: if_splits)

lemma find_replaced:
  "find P L \<noteq> None \<Longrightarrow> P r \<Longrightarrow> find P (map (\<lambda>r'. if P r' then r else r') L) = Some r"
  by (induction L) (auto split: if_splits)

lemma get_coin_record_add:
  "nm (wcr_coin r) = n \<Longrightarrow> get_coin_record nm (add_coin_record nm r L) n = Some r"
  unfolding get_coin_record_def add_coin_record_def
  using find_append_new[of "\<lambda>r'. nm (wcr_coin r') = nm (wcr_coin r)" L r]
        find_replaced[of "\<lambda>r'. nm (wcr_coin r') = nm (wcr_coin r)" L r]
  by (cases "find (\<lambda>r'. nm (wcr_coin r') = nm (wcr_coin r)) L") auto

lemma mem_add_transaction_record: "t \<in> set (add_transaction_record t T)"
  by (auto simp: add_transaction_record_def get_transaction_record_def find_None_iff)

lemma names_and_types_add:
  "set (names_and_types (add_transaction_record t T))
     \<subseteq> insert (tx_name t, tx_type t) (set (names_and_types T))"
  by (auto simp: names_and_types_def add_transaction_record_def)

lemma names_and_types_set_confirmed:
  "names_and_types (set_confirmed n h T) = names_and_types T"
  by (simp add: names_and_types_def set_confirmed_def comp_def)

lemma set_confirmed_keeps_confirmed:
  "t \<in> set T \<Longrightarrow> confirmed t \<Longrightarrow> confirmed_at_height t = h \<Longrightarrow> t \<in> set (set_confirmed n h T)"
  by (force simp: set_confirmed_def image_iff)

lemma fold_invariant: "(\<And>x s. P s \<Longrightarrow> P (f x s)) \<Longrightarrow> P s \<Longrightarrow> P (fold f xs s)"
  by (induction xs arbitrary: s) auto

lemma reward_scan_const: "k \<noteq> p \<Longrightarrow> reward_scan (\<lambda>h. k) c p xs = False"
  by (induction xs) (auto simp: Let_def)

section \<open>Properties of coin_added\<close>

text \<open>Confirming records changes the transaction ledger only, and no row's name or type.\<close>

lemma confirm_records_only_confirms:
  "\<exists>T. confirm_records rs h s = s\<lparr>tx_store := T\<rparr> \<and> names_and_types T = names_and_types (tx_store s)"
proof (induction rs arbitrary: s)
  case Nil
  show ?case by (rule exI[of _ "tx_store s"]) (simp add: confirm_records_def)
next
  case (Cons r rs)
  let ?s1 = "if \<not> confirmed r then s\<lparr>tx_store := set_confirmed (tx_name r) h (tx_store s)\<rparr> else s"
  have step: "confirm_records (r # rs) h s = confirm_records rs h ?s1"
    by (simp add: confirm_records_def)
  from Cons.IH[of ?s1] obtain T where
    T: "confirm_records rs h ?s1 = ?s1\<lparr>tx_store := T\<rparr>"
       "names_and_types T = names_and_types (tx_store ?s1)" by blast
  have "?s1\<lparr>tx_store := T\<rparr> = s\<lparr>tx_store := T\<rparr>" by simp
  moreover have "names_and_types (tx_store ?s1) = names_and_types (tx_store s)"
    by (simp add: names_and_types_set_confirmed)
  ultimately show ?case using step T by auto
qed

lemma coin_added_transactions_change:
  "\<exists>T. coin_added_transactions env coin coinbase fee_reward wallet_id height all_outgoing True s
         = s\<lparr>tx_store := T\<rparr> \<and> names_and_types T = names_and_types (tx_store s)"
proof (cases "\<not> (coinbase \<or> fee_reward) \<and> length (matching_outgoing (coin_name env) coin all_outgoing) > 0")
  case True
  then show ?thesis
    using confirm_records_only_confirms[of "matching_outgoing (coin_name env) coin all_outgoing" height s]
    by (simp add: coin_added_transactions_def Let_def)
next
  case False
  then have "coin_added_transactions env coin coinbase fee_reward wallet_id height all_outgoing True s = s"
    by (auto simp: coin_added_transactions_def Let_def)
  then show ?thesis by (intro exI[of _ "tx_store s"]) simp
qed

lemma wcr_coin_unspent_record [simp]: "wcr_coin (unspent_record coin h f t w) = coin"
  and wcr_wallet_id_unspent_record [simp]: "wcr_wallet_id (unspent_record coin h f t w) = w"
  by (simp_all add: unspent_record_def)

text \<open>
  C5. When the ledger has a record for the coin's parent with the coin's wallet id and
  wallet type (and, for a coloured-coin or DID wallet, the wallet is registered, so that
  its hook can be called), \<open>coin_added\<close> returns the new unspent record, the transaction
  ledger keeps exactly its rows (names and types: nothing is created, rows may only be
  confirmed), the record is in the coin ledger under the coin's name, and
  \<open>state_changed("coin_added", wallet_id)\<close> is the last call, delivered to the callback
  when one is set.
\<close>

theorem coin_added_change_creates_no_transaction:
  assumes parent: "get_coin_record (coin_name env) (coin_store s) (parent_coin_info coin) = Some parent"
    and wid: "wcr_wallet_id parent = wallet_id"
    and wty: "wcr_wallet_type parent = wallet_type"
    and live: "wallet_type = COLOURED_COIN \<or> wallet_type = DISTRIBUTED_ID \<Longrightarrow>
               map_of (wallets s) wallet_id \<noteq> None"
  shows "\<exists>s'. coin_added env coin coinbase fee_reward wallet_id wallet_type height all_outgoing s
           = Inr (unspent_record coin height (coinbase \<or> fee_reward) wallet_type wallet_id, s') \<and>
         names_and_types (tx_store s') = names_and_types (tx_store s) \<and>
         get_coin_record (coin_name env) (coin_store s') (coin_name env coin)
           = Some (unspent_record coin height (coinbase \<or> fee_reward) wallet_type wallet_id) \<and>
         effects s' = effects s
           @ (if wallet_type = COLOURED_COIN \<or> wallet_type = DISTRIBUTED_ID
              then [WalletCoinAdded wallet_id coin height] else [])
           @ (if state_changed_callback s then [StateChanged ''coin_added'' wallet_id] else [])"
proof -
  obtain T where T: "coin_added_transactions env coin coinbase fee_reward wallet_id height all_outgoing True s
        = s\<lparr>tx_store := T\<rparr>" "names_and_types T = names_and_types (tx_store s)"
    using coin_added_transactions_change by blast
  show ?thesis
  proof (cases "wallet_type = COLOURED_COIN \<or> wallet_type = DISTRIBUTED_ID")
    case True
    with live obtain wallet where "map_of (wallets s) wallet_id = Some wallet" by auto
    with True parent wty T show ?thesis
      by (auto simp: coin_added_def Let_def get_coin_record_add state_changed_def)
  next
    case False
    with parent wty T show ?thesis
      by (auto simp: coin_added_def Let_def get_coin_record_add state_changed_def)
  qed
qed

text \<open>
  The change of 3 from the coin of wallet 1 that is in the ledger: no transaction row is
  added, the record is written and the event is delivered.
\<close>

theorem coin_added_change_creates_no_transaction_witness:
  "get_coin_record (coin_name ex_env) (coin_store balance_state) (parent_coin_info (mk_coin 100007 7 3))
     = Some \<lparr>wcr_coin = mk_coin 100 7 10, confirmed_height = 5, spent_height = 0, wcr_spent = False,
            is_farm_reward = False, wcr_wallet_type = STANDARD_WALLET, wcr_wallet_id = 1\<rparr> \<and>
   (\<exists>s'. coin_added ex_env (mk_coin 100007 7 3) False False 1 STANDARD_WALLET 12 [] balance_state
           = Inr (unspent_record (mk_coin 100007 7 3) 12 False STANDARD_WALLET 1, s') \<and>
         names_and_types (tx_store s') = [(50, OUTGOING_TX)] \<and>
         get_coin_record (coin_name ex_env) (coin_store s') (coin_name ex_env (mk_coin 100007 7 3))
           = Some (unspent_record (mk_coin 100007 7 3) 12 False STANDARD_WALLET 1) \<and>
         effects s' = [StateChanged ''coin_added'' 1])"
proof -
  let ?parent = "\<lparr>wcr_coin = mk_coin 100 7 10, confirmed_height = 5, spent_height = 0, wcr_spent = False,
            is_farm_reward = False, wcr_wallet_type = STANDARD_WALLET, wcr_wallet_id = 1\<rparr>"
  have p: "get_coin_record (coin_name ex_env) (coin_store balance_state)
             (parent_coin_info (mk_coin 100007 7 3)) = Some ?parent"
    by (simp add: get_coin_record_def balance_state_def empty_state_def ex_env_def mk_coin_def)
  have w: "wcr_wallet_id ?parent = 1" and t: "wcr_wallet_type ?parent = STANDARD_WALLET" by simp_all
  have l: "STANDARD_WALLET = COLOURED_COIN \<or> STANDARD_WALLET = DISTRIBUTED_ID \<Longrightarrow>
           map_of (wallets balance_state) 1 \<noteq> None" by simp
  have rows: "names_and_types (tx_store balance_state) = [(50, OUTGOING_TX)]"
    by (simp add: names_and_types_def balance_state_def empty_state_def pending_tx_def)
  have ev: "effects balance_state = []" "state_changed_callback balance_state"
    by (simp_all add: balance_state_def empty_state_def)
  from coin_added_change_creates_no_transaction[OF p w t l, of False False 12 "[]"] p rows ev
  show ?thesis by simp
qed

section \<open>Properties of a coin first seen spent\<close>

lemma scan_additions_foreign:
  "scan_additions D (p, a) coins =
     ((case foreign_children D coins of [] \<Rightarrow> p | c # cs \<Rightarrow> Some (puzzle_hash (last (c # cs)))),
      a + sum_list (map (\<lambda>c. uint (amount c)) (foreign_children D coins)))"
proof (induction coins arbitrary: p a)
  case Nil
  show ?case by (simp add: foreign_children_def)
next
  case (Cons c coins)
  show ?case
    by (cases "foreign_children D coins")
       (auto simp: Cons.IH foreign_children_def split: list.splits)
qed

text \<open>
  The confirmation loop over \<open>all_unconfirmed\<close> changes the transaction ledger only; it
  keeps every row's name and type, and every row already confirmed at that height.
\<close>

lemma confirm_removals_only_confirms:
  "\<exists>T. confirm_removals nm U n h s = s\<lparr>tx_store := T\<rparr> \<and>
       names_and_types T = names_and_types (tx_store s) \<and>
       (\<forall>t \<in> set (tx_store s). confirmed t \<and> confirmed_at_height t = h \<longrightarrow> t \<in> set T)"
proof -
  let ?P = "\<lambda>s'. \<exists>T. s' = s\<lparr>tx_store := T\<rparr> \<and>
       names_and_types T = names_and_types (tx_store s) \<and>
       (\<forall>t \<in> set (tx_store s). confirmed t \<and> confirmed_at_height t = h \<longrightarrow> t \<in> set T)"
  have step: "?P (s'\<lparr>tx_store := set_confirmed k h (tx_store s')\<rparr>)" if "?P s'" for k s'
  proof -
    from that obtain T where T: "s' = s\<lparr>tx_store := T\<rparr>"
      "names_and_types T = names_and_types (tx_store s)"
      "\<forall>t \<in> set (tx_store s). confirmed t \<and> confirmed_at_height t = h \<longrightarrow> t \<in> set T" by blast
    show ?thesis
      by (rule exI[of _ "set_confirmed k h T"])
         (use T in \<open>auto simp: names_and_types_set_confirmed set_confirmed_keeps_confirmed\<close>)
  qed
  have inner: "?P (fold (\<lambda>rem_coin s''. if nm rem_coin = n
                     then s''\<lparr>tx_store := set_confirmed (tx_name u) h (tx_store s'')\<rparr>
                     else s'') (removals u) s')" if "?P s'" for u s'
    by (rule fold_invariant[where P = ?P]) (use that step in \<open>auto\<close>)
  have "?P s" by (rule exI[of _ "tx_store s"]) simp
  then show ?thesis
    unfolding confirm_removals_def by (rule fold_invariant[where P = ?P, rotated]) (rule inner)
qed

lemma record_first_seen_frame:
  "derivation_paths (record_first_seen env coin c h wt wid s) = derivation_paths s"
  by (simp add: record_first_seen_def Let_def draw_token_def)

lemma wcr_coin_spent_record [simp]: "wcr_coin (spent_record env coin c h wt wid) = coin"
  by (simp add: spent_record_def Let_def)

lemma record_first_seen_ledger:
  "coin_store (record_first_seen env coin c h wt wid s)
     = add_coin_record (coin_name env) (spent_record env coin c h wt wid) (coin_store s)"
  by (simp add: record_first_seen_def Let_def draw_token_def)

lemma record_first_seen_transactions:
  "tx_store (record_first_seen env coin c h wt wid s) =
     (if first_seen_change env coin c h wt wid s then tx_store s
      else add_transaction_record
             (confirmed_tx c (get_timestamp_for_height env c) (puzzle_hash coin) (amount coin) 0
                [coin] [] wid INCOMING_TX (token_bytes env (tokens_drawn s)))
             (tx_store s))"
  by (simp add: record_first_seen_def Let_def draw_token_def)

lemma mk_uint64_ok: "0 \<le> v \<Longrightarrow> v < 2 ^ 64 \<Longrightarrow> \<exists>w. mk_uint64 v = Inr w \<and> uint w = v"
  by (simp add: mk_uint64_def uint_word_of_int)

text \<open>
  C2 (as amended). A coin state that is created and spent, has no coin record and a wallet
  known from the derivation index, and whose spend has at least one fetched child, gets a
  confirmed OUTGOING transaction (when a peer is connected, the reserved fee fits uint64
  and so does the amount): its fee is \<open>reveal.reserved_fee()\<close>, its amount the sum of the
  amounts of the children whose puzzle hash has no derivation record of ours, and its
  \<open>to_puzzle_hash\<close> the puzzle hash of the LAST such child, or of the first child when every
  child is ours.
\<close>

theorem outgoing_synthesis:
  assumes created: "cs_created_height cs = Some created_height"
    and spent: "cs_spent_height cs = Some spent_h"
    and norec: "get_coin_record (coin_name env) (coin_store s) (coin_name env (cs_coin cs)) = None"
    and info: "wallet_info_for_puzzle_hash (derivation_paths s) (puzzle_hash (cs_coin cs))
                 = Some (wallet_id, wallet_type)"
    and peer: "get_full_node_peer env = Some node"
    and children: "fetch_children env (coin_name env (cs_coin cs)) = child # children"
    and fee: "0 \<le> reserved_fee env spent_h (cs_coin cs)" "reserved_fee env spent_h (cs_coin cs) < 2 ^ 64"
    and amt: "sum_list (map (\<lambda>c. uint (amount c))
                 (foreign_children (derivation_paths s) (map cs_coin (child # children)))) < 2 ^ 64"
  shows "\<exists>v' s'. process_coin_state env all_unconfirmed cs (v, s) = Inr (v', s') \<and>
           (\<exists>t \<in> set (tx_store s').
              tx_type t = OUTGOING_TX \<and> confirmed t \<and> confirmed_at_height t = spent_h \<and>
              tx_wallet_id t = wallet_id \<and>
              removals t = [cs_coin cs] \<and> additions t = map cs_coin (child # children) \<and>
              uint (fee_amount t) = reserved_fee env spent_h (cs_coin cs) \<and>
              uint (tx_amount t) = sum_list (map (\<lambda>c. uint (amount c))
                 (foreign_children (derivation_paths s) (map cs_coin (child # children)))) \<and>
              to_puzzle_hash t =
                (case foreign_children (derivation_paths s) (map cs_coin (child # children)) of
                   [] \<Rightarrow> puzzle_hash (cs_coin child)
                 | c # cs' \<Rightarrow> puzzle_hash (last (c # cs'))))"
proof -
  let ?coin = "cs_coin cs"
  let ?s2 = "record_first_seen env ?coin created_height spent_h wallet_type wallet_id s"
  let ?adds = "map cs_coin (child # children)"
  let ?foreign = "foreign_children (derivation_paths s) ?adds"
  let ?total = "sum_list (map (\<lambda>c. uint (amount c)) ?foreign)"
  let ?to = "case ?foreign of [] \<Rightarrow> puzzle_hash (cs_coin child) | c # cs' \<Rightarrow> puzzle_hash (last (c # cs'))"
  have nn: "0 \<le> ?total" by (induction ?foreign) (auto intro: sum_list_nonneg)
  from mk_uint64_ok[OF nn amt] obtain amt64 where a64: "mk_uint64 ?total = Inr amt64" "uint amt64 = ?total"
    by blast
  from mk_uint64_ok[OF fee] obtain fee64 where
    f64: "mk_uint64 (reserved_fee env spent_h ?coin) = Inr fee64" "uint fee64 = reserved_fee env spent_h ?coin"
    by blast
  define t where "t = confirmed_tx spent_h (get_timestamp_for_height env spent_h) ?to amt64 fee64
      ?adds [?coin] wallet_id OUTGOING_TX (token_bytes env (tokens_drawn ?s2))"
  define s3 where "s3 = ?s2\<lparr>tokens_drawn := tokens_drawn ?s2 + 1,
      tx_store := add_transaction_record t (tx_store ?s2)\<rparr>"
  have scan: "scan_additions (derivation_paths ?s2) (None, 0) ?adds
      = ((case ?foreign of [] \<Rightarrow> None | c # cs' \<Rightarrow> Some (puzzle_hash (last (c # cs')))), ?total)"
    by (simp add: scan_additions_foreign record_first_seen_frame)
  have to_eq: "(case (case ?foreign of [] \<Rightarrow> None | c # cs' \<Rightarrow> Some (puzzle_hash (last (c # cs')))) of
        None \<Rightarrow> puzzle_hash (cs_coin child) | Some ph \<Rightarrow> ph) = ?to"
    by (cases ?foreign) auto
  have syn: "synthesize_outgoing env ?coin spent_h wallet_id ?s2 = Inr s3"
    unfolding synthesize_outgoing_def
    using peer children a64(1) f64(1) to_eq scan
    by (simp add: Let_def bind_err_def draw_token_def s3_def t_def del: scan_additions.simps)
  have t_in: "t \<in> set (tx_store s3)" by (simp add: s3_def mem_add_transaction_record)
  have t_conf: "confirmed t" "confirmed_at_height t = spent_h" by (simp_all add: t_def confirmed_tx_def)
  obtain T where T: "confirm_removals (coin_name env) all_unconfirmed (coin_name env ?coin) spent_h s3
        = s3\<lparr>tx_store := T\<rparr>" "t \<in> set T"
    using confirm_removals_only_confirms[of "coin_name env" all_unconfirmed "coin_name env ?coin" spent_h s3]
      t_in t_conf by blast
  obtain v' where run: "process_coin_state env all_unconfirmed cs (v, s) = Inr (v', s3\<lparr>tx_store := T\<rparr>)"
    using created spent norec info syn T(1)
    by (simp add: process_coin_state_def process_spent_def first_seen_spent_def Let_def bind_err_def)
  have fields: "tx_type t = OUTGOING_TX \<and> confirmed t \<and> confirmed_at_height t = spent_h \<and>
      tx_wallet_id t = wallet_id \<and> removals t = [?coin] \<and> additions t = ?adds \<and>
      uint (fee_amount t) = reserved_fee env spent_h ?coin \<and> uint (tx_amount t) = ?total \<and>
      to_puzzle_hash t = ?to"
    using a64(2) f64(2) by (simp add: t_def confirmed_tx_def)
  have "t \<in> set (tx_store (s3\<lparr>tx_store := T\<rparr>))" using T(2) by simp
  with run fields show ?thesis by blast
qed

text \<open>The spend with payees 8 and 9: amount 3, fee 1, and the transaction goes to 9.\<close>

theorem outgoing_synthesis_witness:
  "cs_created_height spent_cs = Some 90 \<and> cs_spent_height spent_cs = Some 100 \<and>
   get_coin_record (coin_name two_payees_env) (coin_store owner_state)
     (coin_name two_payees_env (cs_coin spent_cs)) = None \<and>
   wallet_info_for_puzzle_hash (derivation_paths owner_state) (puzzle_hash (cs_coin spent_cs))
     = Some (1, STANDARD_WALLET) \<and>
   fetch_children two_payees_env (coin_name two_payees_env (cs_coin spent_cs))
     = [child_cs 8 2, child_cs 9 1, child_cs 7 6] \<and>
   (\<exists>v' s'. process_coin_state two_payees_env [] spent_cs (init_vars, owner_state) = Inr (v', s') \<and>
      (\<exists>t \<in> set (tx_store s').
         tx_type t = OUTGOING_TX \<and> removals t = [cs_coin spent_cs] \<and>
         uint (fee_amount t) = 1 \<and> uint (tx_amount t) = 3 \<and> to_puzzle_hash t = 9))"
proof -
  have h1: "cs_created_height spent_cs = Some 90" and h2: "cs_spent_height spent_cs = Some 100"
    by (simp_all add: spent_cs_def)
  have h3: "get_coin_record (coin_name two_payees_env) (coin_store owner_state)
              (coin_name two_payees_env (cs_coin spent_cs)) = None"
    by (simp add: get_coin_record_def owner_state_def empty_state_def)
  have h4: "wallet_info_for_puzzle_hash (derivation_paths owner_state) (puzzle_hash (cs_coin spent_cs))
              = Some (1, STANDARD_WALLET)"
    by (simp add: wallet_info_for_puzzle_hash_def get_derivation_record_for_puzzle_hash_def
        owner_state_def empty_state_def ex_derivation_def spent_cs_def mk_coin_def)
  have h5: "get_full_node_peer two_payees_env = Some 0"
    by (simp add: two_payees_env_def ex_env_def)
  have h6: "fetch_children two_payees_env (coin_name two_payees_env (cs_coin spent_cs))
              = child_cs 8 2 # [child_cs 9 1, child_cs 7 6]"
    by (simp add: two_payees_env_def)
  have fee: "reserved_fee two_payees_env 100 (cs_coin spent_cs) = 1"
    by (simp add: two_payees_env_def)
  have foreign: "foreign_children (derivation_paths owner_state)
                   (map cs_coin (child_cs 8 2 # [child_cs 9 1, child_cs 7 6]))
                 = [mk_coin 100007 8 2, mk_coin 100007 9 1]"
    by (simp add: foreign_children_def get_derivation_record_for_puzzle_hash_def owner_state_def
        empty_state_def ex_derivation_def child_cs_def mk_coin_def)
  have h7: "0 \<le> reserved_fee two_payees_env 100 (cs_coin spent_cs)"
    and h8: "reserved_fee two_payees_env 100 (cs_coin spent_cs) < 2 ^ 64"
    by (simp_all add: fee)
  have h9: "sum_list (map (\<lambda>c. uint (amount c))
              (foreign_children (derivation_paths owner_state)
                 (map cs_coin (child_cs 8 2 # [child_cs 9 1, child_cs 7 6])))) < 2 ^ 64"
    unfolding foreign by (simp add: mk_coin_def)
  from outgoing_synthesis[OF h1 h2 h3 h4 h5 h6 h7 h8 h9, of "[]" init_vars]
  obtain v' s' t where r: "process_coin_state two_payees_env [] spent_cs (init_vars, owner_state) = Inr (v', s')"
    "t \<in> set (tx_store s')" "tx_type t = OUTGOING_TX" "removals t = [cs_coin spent_cs]"
    "uint (fee_amount t) = reserved_fee two_payees_env 100 (cs_coin spent_cs)"
    "uint (tx_amount t) = sum_list (map (\<lambda>c. uint (amount c))
              (foreign_children (derivation_paths owner_state)
                 (map cs_coin (child_cs 8 2 # [child_cs 9 1, child_cs 7 6]))))"
    "to_puzzle_hash t =
       (case foreign_children (derivation_paths owner_state)
               (map cs_coin (child_cs 8 2 # [child_cs 9 1, child_cs 7 6])) of
          [] \<Rightarrow> puzzle_hash (cs_coin (child_cs 8 2))
        | c # cs' \<Rightarrow> puzzle_hash (last (c # cs')))"
    by blast
  have "uint (fee_amount t) = 1" using r(5) fee by simp
  moreover have "uint (tx_amount t) = 3" using r(6) unfolding foreign by (simp add: mk_coin_def)
  moreover have "to_puzzle_hash t = 9" using r(7) unfolding foreign by (simp add: mk_coin_def)
  ultimately show ?thesis using h1 h2 h3 h4 h6 r(1-4) by blast
qed

text \<open>
  C2 as stated fails: in that spend the first child that is not ours pays puzzle hash 8,
  and the one OUTGOING transaction recorded goes to puzzle hash 9.
\<close>

theorem outgoing_to_first_foreign_child_counterexample:
  "(case process_coin_state two_payees_env [] spent_cs (init_vars, owner_state) of
      Inl e \<Rightarrow> []
    | Inr (v', s') \<Rightarrow> map to_puzzle_hash (filter (\<lambda>t. tx_type t = OUTGOING_TX) (tx_store s'))) = [9] \<and>
   map puzzle_hash (foreign_children (derivation_paths owner_state)
     (map cs_coin (fetch_children two_payees_env (coin_name two_payees_env (cs_coin spent_cs))))) = [8, 9]"
  by (simp add: process_coin_state_def process_spent_def first_seen_spent_def spent_cs_def
      owner_state_def empty_state_def two_payees_env_def ex_env_def mk_coin_def ex_derivation_def
      wallet_info_for_puzzle_hash_def get_derivation_record_for_puzzle_hash_def get_coin_record_def
      record_first_seen_def first_seen_change_def spent_record_def is_farmer_reward_def
      is_pool_reward_def reward_scan_const add_coin_record_def draw_token_def
      add_transaction_record_def get_transaction_record_def synthesize_outgoing_def child_cs_def
      mk_uint64_def bind_err_def confirm_removals_def init_vars_def confirmed_tx_def Let_def
      foreign_children_def)

text \<open>
  C10. For a created-and-spent coin state with no coin record and a wallet known from the
  derivation index, when \<open>fetch_children\<close> returns no child (and a peer is connected) the
  coin state is processed and appended to \<open>removed\<close>, the spent coin record is in the ledger,
  and the transaction ledger has the rows it had, plus the INCOMING_TX row of the creation
  when the coin is not change; in particular every OUTGOING_TX row was there before.
\<close>

theorem no_children_no_outgoing:
  assumes created: "cs_created_height cs = Some created_height"
    and spent: "cs_spent_height cs = Some spent_h"
    and norec: "get_coin_record (coin_name env) (coin_store s) (coin_name env (cs_coin cs)) = None"
    and info: "wallet_info_for_puzzle_hash (derivation_paths s) (puzzle_hash (cs_coin cs))
                 = Some (wallet_id, wallet_type)"
    and peer: "get_full_node_peer env = Some node"
    and children: "fetch_children env (coin_name env (cs_coin cs)) = []"
  shows "\<exists>v' s'. process_coin_state env all_unconfirmed cs (v, s) = Inr (v', s') \<and>
           removed v' = removed v @ [cs] \<and>
           get_coin_record (coin_name env) (coin_store s') (coin_name env (cs_coin cs))
             = Some (spent_record env (cs_coin cs) created_height spent_h wallet_type wallet_id) \<and>
           names_and_types (tx_store s') =
             names_and_types
               (if first_seen_change env (cs_coin cs) created_height spent_h wallet_type wallet_id s
                then tx_store s
                else add_transaction_record
                       (confirmed_tx created_height (get_timestamp_for_height env created_height)
                          (puzzle_hash (cs_coin cs)) (amount (cs_coin cs)) 0 [cs_coin cs] []
                          wallet_id INCOMING_TX (token_bytes env (tokens_drawn s)))
                       (tx_store s)) \<and>
           (\<forall>p \<in> set (names_and_types (tx_store s')).
              snd p = OUTGOING_TX \<longrightarrow> p \<in> set (names_and_types (tx_store s)))"
proof -
  let ?coin = "cs_coin cs"
  let ?s2 = "record_first_seen env ?coin created_height spent_h wallet_type wallet_id s"
  have syn: "synthesize_outgoing env ?coin spent_h wallet_id ?s2 = Inr ?s2"
    using peer children by (simp add: synthesize_outgoing_def)
  obtain T where T: "confirm_removals (coin_name env) all_unconfirmed (coin_name env ?coin) spent_h ?s2
        = ?s2\<lparr>tx_store := T\<rparr>" "names_and_types T = names_and_types (tx_store ?s2)"
    using confirm_removals_only_confirms[of "coin_name env" all_unconfirmed "coin_name env ?coin" spent_h ?s2]
    by blast
  obtain v' where run: "process_coin_state env all_unconfirmed cs (v, s) = Inr (v', ?s2\<lparr>tx_store := T\<rparr>)"
      and rem: "removed v' = removed v @ [cs]"
    using created spent norec info syn T(1)
    by (simp add: process_coin_state_def process_spent_def first_seen_spent_def Let_def bind_err_def)
  have ledger: "get_coin_record (coin_name env) (coin_store (?s2\<lparr>tx_store := T\<rparr>)) (coin_name env ?coin)
      = Some (spent_record env ?coin created_height spent_h wallet_type wallet_id)"
    by (simp add: record_first_seen_ledger get_coin_record_add)
  have rows: "names_and_types (tx_store (?s2\<lparr>tx_store := T\<rparr>)) =
      names_and_types
        (if first_seen_change env ?coin created_height spent_h wallet_type wallet_id s
         then tx_store s
         else add_transaction_record
                (confirmed_tx created_height (get_timestamp_for_height env created_height)
                   (puzzle_hash ?coin) (amount ?coin) 0 [?coin] []
                   wallet_id INCOMING_TX (token_bytes env (tokens_drawn s)))
                (tx_store s))"
    using T(2) by (simp add: record_first_seen_transactions)
  have none: "\<forall>p \<in> set (names_and_types (tx_store (?s2\<lparr>tx_store := T\<rparr>))).
      snd p = OUTGOING_TX \<longrightarrow> p \<in> set (names_and_types (tx_store s))"
    unfolding rows
    using names_and_types_add[of "confirmed_tx created_height (get_timestamp_for_height env created_height)
                   (puzzle_hash ?coin) (amount ?coin) 0 [?coin] []
                   wallet_id INCOMING_TX (token_bytes env (tokens_drawn s))" "tx_store s"]
    by (auto simp: confirmed_tx_def split: if_splits)
  from run rem ledger rows none show ?thesis by blast
qed

text \<open>The same coin with no child fetched: the one row is the incoming transaction.\<close>

theorem no_children_no_outgoing_witness:
  "cs_created_height spent_cs = Some 90 \<and> cs_spent_height spent_cs = Some 100 \<and>
   get_coin_record (coin_name ex_env) (coin_store owner_state) (coin_name ex_env (cs_coin spent_cs)) = None \<and>
   wallet_info_for_puzzle_hash (derivation_paths owner_state) (puzzle_hash (cs_coin spent_cs))
     = Some (1, STANDARD_WALLET) \<and>
   fetch_children ex_env (coin_name ex_env (cs_coin spent_cs)) = [] \<and>
   (\<exists>v' s'. process_coin_state ex_env [] spent_cs (init_vars, owner_state) = Inr (v', s') \<and>
      removed v' = [spent_cs] \<and>
      get_coin_record (coin_name ex_env) (coin_store s') (coin_name ex_env (cs_coin spent_cs))
        = Some (spent_record ex_env (cs_coin spent_cs) 90 100 STANDARD_WALLET 1) \<and>
      names_and_types (tx_store s') = [(5000, INCOMING_TX)])"
proof -
  have h1: "cs_created_height spent_cs = Some 90" and h2: "cs_spent_height spent_cs = Some 100"
    by (simp_all add: spent_cs_def)
  have h3: "get_coin_record (coin_name ex_env) (coin_store owner_state)
              (coin_name ex_env (cs_coin spent_cs)) = None"
    by (simp add: get_coin_record_def owner_state_def empty_state_def)
  have h4: "wallet_info_for_puzzle_hash (derivation_paths owner_state) (puzzle_hash (cs_coin spent_cs))
              = Some (1, STANDARD_WALLET)"
    by (simp add: wallet_info_for_puzzle_hash_def get_derivation_record_for_puzzle_hash_def
        owner_state_def empty_state_def ex_derivation_def spent_cs_def mk_coin_def)
  have h5: "get_full_node_peer ex_env = Some 0" by (simp add: ex_env_def)
  have h6: "fetch_children ex_env (coin_name ex_env (cs_coin spent_cs)) = []"
    by (simp add: ex_env_def)
  have nochange: "\<not> first_seen_change ex_env (cs_coin spent_cs) 90 100 STANDARD_WALLET 1 owner_state"
    by (simp add: first_seen_change_def get_coin_record_def add_coin_record_def owner_state_def
        empty_state_def spent_cs_def mk_coin_def ex_env_def)
  have rows: "names_and_types
      (add_transaction_record
         (confirmed_tx 90 (get_timestamp_for_height ex_env 90) (puzzle_hash (cs_coin spent_cs))
            (amount (cs_coin spent_cs)) 0 [cs_coin spent_cs] [] 1 INCOMING_TX
            (token_bytes ex_env (tokens_drawn owner_state)))
         (tx_store owner_state)) = [(5000, INCOMING_TX)]"
    by (simp add: names_and_types_def add_transaction_record_def get_transaction_record_def
        owner_state_def empty_state_def confirmed_tx_def ex_env_def)
  have rem: "removed init_vars = []" by (simp add: init_vars_def)
  from no_children_no_outgoing[OF h1 h2 h3 h4 h5 h6, of "[]" init_vars] nochange rows rem
  have "\<exists>v' s'. process_coin_state ex_env [] spent_cs (init_vars, owner_state) = Inr (v', s') \<and>
      removed v' = [spent_cs] \<and>
      get_coin_record (coin_name ex_env) (coin_store s') (coin_name ex_env (cs_coin spent_cs))
        = Some (spent_record ex_env (cs_coin spent_cs) 90 100 STANDARD_WALLET 1) \<and>
      names_and_types (tx_store s') = [(5000, INCOMING_TX)]"
    by (simp del: Set.ball_simps) blast
  with h1 h2 h3 h4 h6 show ?thesis by blast
qed

section \<open>Properties of create_more_puzzle_hashes\<close>

lemma mk_uint32_nat: "mk_uint32 (int i) = Inr x \<Longrightarrow> unat x = i"
  by (auto simp: mk_uint32_def unat_of_nat split: if_splits)

lemma derive_standard_ids:
  "derive_standard env w idx = Inr paths \<Longrightarrow>
   (\<forall>d \<in> set paths. dr_wallet_id d = w_id w) \<and> derivation_index ` set paths \<subseteq> set idx"
proof (induction idx arbitrary: paths)
  case Nil
  then show ?case by simp
next
  case (Cons i idx)
  from Cons.prems obtain i32 where i32: "mk_uint32 (int i) = Inr i32"
    by (auto simp: bind_err_def split: sum.splits)
  show ?case
  proof (cases "puzzle_for_pk w (get_public_key env i)")
    case None
    with Cons.prems i32 show ?thesis by (simp add: bind_err_def)
  next
    case (Some ph)
    with Cons.prems i32 obtain more where more: "derive_standard env w idx = Inr more"
      and paths: "paths = \<lparr>dr_index = i32, dr_puzzle_hash = ph, dr_pubkey = get_public_key env i,
                   dr_wallet_type = w_type w, dr_wallet_id = w_id w\<rparr> # more"
      by (auto simp: bind_err_def split: sum.splits)
    from Cons.IH[OF more] mk_uint32_nat[OF i32] paths show ?thesis
      by (auto simp: derivation_index_def)
  qed
qed

lemma derive_standard_all:
  "derive_standard env w idx = Inr paths \<Longrightarrow>
   \<forall>i \<in> set idx. puzzle_for_pk w (get_public_key env i) \<noteq> None \<Longrightarrow>
   map derivation_index paths = idx"
proof (induction idx arbitrary: paths)
  case Nil
  then show ?case by simp
next
  case (Cons i idx)
  then show ?case
    by (auto simp: bind_err_def Let_def derivation_index_def split: sum.splits option.splits
             dest!: mk_uint32_nat)
qed

lemma derive_rate_limited_ids:
  "derive_rate_limited env w = Inr paths \<Longrightarrow> \<forall>d \<in> set paths. dr_wallet_id d = w_id w"
  by (auto simp: derive_rate_limited_def bind_err_def Let_def split: if_splits option.splits sum.splits)

lemma derive_for_wallet_ids:
  "derive_for_wallet env w idx = Inr paths \<Longrightarrow> \<forall>d \<in> set paths. dr_wallet_id d = w_id w"
  using derive_standard_ids derive_rate_limited_ids
  by (fastforce simp: derive_for_wallet_def split: if_splits)

lemma replace_keeps_keys:
  "derivation_key ` set (map (\<lambda>d'. if derivation_key d' = derivation_key d then d else d') D)
     = derivation_key ` set D"
  by (induction D) auto

lemma add_derivation_path_keys:
  "derivation_key ` set (add_derivation_path d D) = insert (derivation_key d) (derivation_key ` set D)"
proof (cases "derivation_key d \<in> derivation_key ` set D")
  case True
  then show ?thesis
    unfolding add_derivation_path_def by (simp only: if_True replace_keeps_keys) auto
next
  case False
  then show ?thesis by (simp add: add_derivation_path_def)
qed

lemma add_derivation_paths_keys:
  "derivation_key ` set (add_derivation_paths ps D) = derivation_key ` set ps \<union> derivation_key ` set D"
  unfolding add_derivation_paths_def
  by (induction ps arbitrary: D) (auto simp: add_derivation_path_keys)

lemma replace_other:
  "dr_wallet_id d \<noteq> wid \<Longrightarrow>
   filter (\<lambda>d'. dr_wallet_id d' = wid)
     (map (\<lambda>d'. if derivation_key d' = derivation_key d then d else d') D)
   = filter (\<lambda>d'. dr_wallet_id d' = wid) D"
  by (induction D) (auto simp: derivation_key_def)

lemma add_derivation_path_other:
  "dr_wallet_id d \<noteq> wid \<Longrightarrow>
   filter (\<lambda>d'. dr_wallet_id d' = wid) (add_derivation_path d D) = filter (\<lambda>d'. dr_wallet_id d' = wid) D"
  unfolding add_derivation_path_def by (simp add: replace_other)

lemma add_derivation_paths_other:
  "\<forall>d \<in> set ps. dr_wallet_id d \<noteq> wid \<Longrightarrow>
   filter (\<lambda>d'. dr_wallet_id d' = wid) (add_derivation_paths ps D) = filter (\<lambda>d'. dr_wallet_id d' = wid) D"
  unfolding add_derivation_paths_def
  by (induction ps arbitrary: D) (auto simp: add_derivation_path_other)


lemma derive_for_wallet_standard:
  "w_type w \<noteq> POOLING_WALLET \<Longrightarrow> w_type w \<noteq> RATE_LIMITED \<Longrightarrow>
   derive_for_wallet env w idx = derive_standard env w idx"
  by (cases idx) (simp_all add: derive_for_wallet_def)

lemma derive_targets_append:
  "derive_targets env fz b (xs @ ys) s = bind_err (derive_targets env fz b xs s) (derive_targets env fz b ys)"
  by (induction xs arbitrary: s) (auto simp: bind_err_def split: option.splits sum.splits)

lemma derive_targets_frame:
  "derive_targets env fz b ts s = Inr s' \<Longrightarrow>
   wallets s' = wallets s \<and> last_used s' = last_used s \<and>
   derivation_key ` set (derivation_paths s) \<subseteq> derivation_key ` set (derivation_paths s')"
proof (induction ts arbitrary: s)
  case Nil
  then show ?case by simp
next
  case (Cons t ts)
  from Cons.prems obtain w paths where w: "map_of (wallets s) t = Some w"
    and paths: "derive_for_wallet env w [start_index s fz t..<b] = Inr paths"
    and rest: "derive_targets env fz b ts
        (s\<lparr>derivation_paths := add_derivation_paths paths (derivation_paths s),
           effects := effects s @ [SubscribeToNewPuzzleHash (map dr_puzzle_hash paths)]\<rparr>) = Inr s'"
    by (auto simp: bind_err_def split: option.splits sum.splits)
  from Cons.IH[OF rest] show ?case by (auto simp: add_derivation_paths_keys)
qed

lemma derive_targets_other:
  "derive_targets env fz b ts s = Inr s' \<Longrightarrow> wallet_id \<notin> set ts \<Longrightarrow>
   \<forall>k w. map_of (wallets s) k = Some w \<longrightarrow> w_id w = k \<Longrightarrow>
   filter (\<lambda>d. dr_wallet_id d = wallet_id) (derivation_paths s')
     = filter (\<lambda>d. dr_wallet_id d = wallet_id) (derivation_paths s)"
proof (induction ts arbitrary: s)
  case Nil
  then show ?case by simp
next
  case (Cons t ts)
  from Cons.prems(1) obtain w paths where w: "map_of (wallets s) t = Some w"
    and paths: "derive_for_wallet env w [start_index s fz t..<b] = Inr paths"
    and rest: "derive_targets env fz b ts
        (s\<lparr>derivation_paths := add_derivation_paths paths (derivation_paths s),
           effects := effects s @ [SubscribeToNewPuzzleHash (map dr_puzzle_hash paths)]\<rparr>) = Inr s'"
    by (auto simp: bind_err_def split: option.splits sum.splits)
  from w Cons.prems(3) have "w_id w = t" by blast
  with derive_for_wallet_ids[OF paths] Cons.prems(2)
  have other: "\<forall>d \<in> set paths. dr_wallet_id d \<noteq> wallet_id" by auto
  from Cons.IH[OF rest] Cons.prems(2,3) add_derivation_paths_other[OF other]
  show ?case by simp
qed

text \<open>
  C8 (as amended). After \<open>create_more_puzzle_hashes(from_zero)\<close> returns, a registered wallet
  that is neither a pool wallet nor rate-limited, and whose \<open>puzzle_for_pk\<close> returns a
  puzzle at every index of the range, has a derivation at every index of
  \<open>[start, unused + N)\<close>: \<open>N\<close> is \<open>initial_num_public_keys\<close> (or the new-wallet number when
  the flag is set), \<open>start\<close> is 0 when \<open>from_zero\<close> and else one past the wallet's last
  generated index (0 when it has none). On an empty derivation index the wallet's indices
  are exactly \<open>0 .. N - 1\<close> and \<open>last_used\<close> is not advanced. The registry is a dictionary
  (distinct keys) whose wallets answer \<open>id()\<close> with their key.
\<close>

theorem create_more_puzzle_hashes_covers:
  assumes ret: "create_more_puzzle_hashes env from_zero s = Inr s'"
    and reg: "map_of (wallets s) wallet_id = Some w"
    and keys: "distinct (map fst (wallets s))"
    and ids: "\<forall>k w'. map_of (wallets s) k = Some w' \<longrightarrow> w_id w' = k"
    and ty: "w_type w \<noteq> POOLING_WALLET" "w_type w \<noteq> RATE_LIMITED"
    and pz: "\<forall>i. start_index s from_zero wallet_id \<le> i \<and> i < unused_or_last s + to_generate env s
               \<longrightarrow> puzzle_for_pk w (get_public_key env i) \<noteq> None"
  shows "(\<forall>i. start_index s from_zero wallet_id \<le> i \<and> i < unused_or_last s + to_generate env s
            \<longrightarrow> (\<exists>d \<in> set (derivation_paths s'). dr_wallet_id d = wallet_id \<and> derivation_index d = i)) \<and>
         (derivation_paths s = [] \<longrightarrow>
            derivation_index ` {d \<in> set (derivation_paths s'). dr_wallet_id d = wallet_id}
              = {0 ..< to_generate env s} \<and>
            last_used s' = last_used s)"
proof -
  let ?b = "unused_or_last s + to_generate env s"
  let ?P = "\<lambda>d. dr_wallet_id d = wallet_id"
  from ret obtain s3 where s3: "derive_targets env from_zero ?b (map fst (wallets s)) s = Inr s3"
    and fin: "(if unused_or_last s > 0
               then bind_err (mk_uint32 (int (unused_or_last s) - 1)) (\<lambda>i. Inr (set_used_up_to i s3))
               else Inr s3) = Inr s'"
    by (auto simp: create_more_puzzle_hashes_def Let_def bind_err_def split: sum.splits)
  have dp: "derivation_paths s' = derivation_paths s3"
    using fin by (auto simp: bind_err_def set_used_up_to_def split: if_splits sum.splits)
  from reg have "wallet_id \<in> set (map fst (wallets s))"
    by (metis map_of_eq_None_iff option.distinct(1) set_map)
  then obtain pre post where split: "map fst (wallets s) = pre @ wallet_id # post"
    by (auto dest: split_list)
  with keys have npre: "wallet_id \<notin> set pre" and npost: "wallet_id \<notin> set post" by auto
  from s3 split obtain s1 where s1: "derive_targets env from_zero ?b pre s = Inr s1"
    and tl: "derive_targets env from_zero ?b (wallet_id # post) s1 = Inr s3"
    by (auto simp: derive_targets_append bind_err_def split: sum.splits)
  from derive_targets_frame[OF s1] have w1: "wallets s1 = wallets s" by simp
  have f1: "filter ?P (derivation_paths s1) = filter ?P (derivation_paths s)"
    by (rule derive_targets_other[OF s1 npre ids])
  then have st: "start_index s1 from_zero wallet_id = start_index s from_zero wallet_id"
    by (simp add: start_index_def get_last_derivation_path_for_wallet_def)
  let ?idx = "[start_index s from_zero wallet_id..<?b]"
  from tl reg w1 st obtain paths where paths: "derive_for_wallet env w ?idx = Inr paths"
    and post: "derive_targets env from_zero ?b post
        (s1\<lparr>derivation_paths := add_derivation_paths paths (derivation_paths s1),
            effects := effects s1 @ [SubscribeToNewPuzzleHash (map dr_puzzle_hash paths)]\<rparr>) = Inr s3"
    by (auto simp: bind_err_def split: sum.splits)
  let ?s2 = "s1\<lparr>derivation_paths := add_derivation_paths paths (derivation_paths s1),
            effects := effects s1 @ [SubscribeToNewPuzzleHash (map dr_puzzle_hash paths)]\<rparr>"
  from reg ids have wid: "w_id w = wallet_id" by blast
  have pid: "\<forall>d \<in> set paths. dr_wallet_id d = wallet_id"
    using derive_for_wallet_ids[OF paths] wid by simp
  have std: "derive_standard env w ?idx = Inr paths"
    using paths ty by (simp add: derive_for_wallet_standard)
  have all: "map derivation_index paths = ?idx"
    using derive_standard_all[OF std] pz by auto
  have k2: "derivation_key ` set paths \<subseteq> derivation_key ` set (derivation_paths s3)"
    using derive_targets_frame[OF post] by (auto simp: add_derivation_paths_keys)
  have cover: "\<exists>d \<in> set (derivation_paths s'). dr_wallet_id d = wallet_id \<and> derivation_index d = i"
    if "start_index s from_zero wallet_id \<le> i" "i < ?b" for i
  proof -
    from that have "i \<in> set ?idx" by simp
    with all obtain p where p: "p \<in> set paths" "derivation_index p = i"
      by (metis (no_types, lifting) image_iff set_map)
    with k2 obtain d where d: "d \<in> set (derivation_paths s3)" "derivation_key d = derivation_key p"
      by (metis (no_types, lifting) image_iff subsetD)
    with p pid have "dr_wallet_id d = wallet_id \<and> derivation_index d = i"
      by (auto simp: derivation_key_def derivation_index_def)
    with d dp show ?thesis by auto
  qed
  have boot: "derivation_index ` {d \<in> set (derivation_paths s'). dr_wallet_id d = wallet_id}
              = {0 ..< to_generate env s} \<and> last_used s' = last_used s"
    if empty: "derivation_paths s = []"
  proof -
    from empty have u0: "unused_or_last s = 0"
      by (simp add: unused_or_last_def get_unused_derivation_path_def get_last_derivation_path_def)
    from empty have st0: "start_index s from_zero wallet_id = 0"
      by (simp add: start_index_def get_last_derivation_path_for_wallet_def)
    from fin u0 have "s' = s3" by simp
    with derive_targets_frame[OF s3] have lu: "last_used s' = last_used s" by simp
    have f3: "filter ?P (derivation_paths s3) = filter ?P (derivation_paths ?s2)"
      using derive_targets_other[OF post npost] ids w1 by simp
    from f1 empty have none1: "\<forall>d \<in> set (derivation_paths s1). dr_wallet_id d \<noteq> wallet_id"
      by (auto simp: filter_empty_conv)
    have "derivation_index ` set (filter ?P (derivation_paths ?s2)) = set ?idx"
    proof
      show "derivation_index ` set (filter ?P (derivation_paths ?s2)) \<subseteq> set ?idx"
      proof
        fix i assume "i \<in> derivation_index ` set (filter ?P (derivation_paths ?s2))"
        then obtain d where d: "d \<in> set (add_derivation_paths paths (derivation_paths s1))"
          "dr_wallet_id d = wallet_id" "derivation_index d = i" by auto
        then have "derivation_key d \<in> derivation_key ` set paths \<union> derivation_key ` set (derivation_paths s1)"
          using add_derivation_paths_keys[of paths "derivation_paths s1"] by blast
        with none1 d(2) obtain p where "p \<in> set paths" "derivation_key p = derivation_key d"
          by (auto simp: derivation_key_def)
        with d(3) all show "i \<in> set ?idx"
          by (metis (no_types, lifting) derivation_index_def derivation_key_def image_eqI prod.inject set_map)
      qed
    next
      show "set ?idx \<subseteq> derivation_index ` set (filter ?P (derivation_paths ?s2))"
      proof
        fix i assume "i \<in> set ?idx"
        with all obtain p where p: "p \<in> set paths" "derivation_index p = i"
          by (metis (no_types, lifting) image_iff set_map)
        then have "derivation_key p \<in> derivation_key ` set (add_derivation_paths paths (derivation_paths s1))"
          using add_derivation_paths_keys[of paths "derivation_paths s1"] by blast
        then obtain d where "d \<in> set (add_derivation_paths paths (derivation_paths s1))"
          "derivation_key d = derivation_key p" by auto
        with p pid show "i \<in> derivation_index ` set (filter ?P (derivation_paths ?s2))"
          by (auto simp: derivation_key_def derivation_index_def image_iff)
      qed
    qed
    with f3 dp u0 st0 have "derivation_index ` set (filter ?P (derivation_paths s')) = {0 ..< to_generate env s}"
      by simp
    moreover have "set (filter ?P (derivation_paths s')) = {d \<in> set (derivation_paths s'). dr_wallet_id d = wallet_id}"
      by auto
    ultimately show ?thesis using lu by simp
  qed
  from cover boot show ?thesis by blast
qed

lemma upt8: "[0..<8] = [0, 1, 2, 3, 4, 5, 6, 7]"
  by code_simp

lemma boot_run: "create_more_puzzle_hashes ex_env True boot_state = Inr boot_result"
  by (simp add: create_more_puzzle_hashes_def Let_def boot_state_def empty_state_def ex_wallet_def
      unused_or_last_def get_unused_derivation_path_def get_last_derivation_path_def to_generate_def
      ex_env_def start_index_def derive_for_wallet_def upt8 bind_err_def mk_uint32_def
      add_derivation_paths_def add_derivation_path_def derivation_key_def boot_result_def)

text \<open>
  C8 as stated fails for a wallet that returns no puzzle: the loop ends at \<open>break\<close> with a
  warning, the call returns, and no index of \<open>[0, 8)\<close> has a derivation.
\<close>

theorem puzzle_less_wallet_counterexample:
  "create_more_puzzle_hashes ex_env True mute_state
     = Inr (mute_state\<lparr>effects := [SubscribeToNewPuzzleHash []]\<rparr>) \<and>
   start_index mute_state True 1 = 0 \<and>
   unused_or_last mute_state + to_generate ex_env mute_state = 8 \<and>
   derivation_paths (mute_state\<lparr>effects := [SubscribeToNewPuzzleHash []]\<rparr>) = []"
  by (simp add: create_more_puzzle_hashes_def Let_def mute_state_def empty_state_def ex_wallet_def
      unused_or_last_def get_unused_derivation_path_def get_last_derivation_path_def to_generate_def
      ex_env_def start_index_def derive_for_wallet_def upt8 bind_err_def mk_uint32_def
      add_derivation_paths_def)

text \<open>
  Bootstrap: an empty database, wallet 1 and \<open>initial_num_public_keys = 8\<close> give the
  indices 0 to 7, \<open>last_used\<close> stays unset and the subscription sink is called once with
  the 8 puzzle hashes.
\<close>

theorem create_more_puzzle_hashes_covers_witness:
  "create_more_puzzle_hashes ex_env True boot_state = Inr boot_result \<and>
   derivation_paths boot_state = [] \<and> to_generate ex_env boot_state = 8 \<and>
   derivation_index ` {d \<in> set (derivation_paths boot_result). dr_wallet_id d = 1} = {0 ..< 8} \<and>
   last_used boot_result = None \<and>
   effects boot_result = [SubscribeToNewPuzzleHash [7000, 7001, 7002, 7003, 7004, 7005, 7006, 7007]]"
proof -
  let ?w = "ex_wallet 1 (\<lambda>pk. Some (7000 + word_of_nat pk))"
  have reg: "map_of (wallets boot_state) 1 = Some ?w" by (simp add: boot_state_def empty_state_def)
  have keys: "distinct (map fst (wallets boot_state))" by (simp add: boot_state_def empty_state_def)
  have ids: "\<forall>k w'. map_of (wallets boot_state) k = Some w' \<longrightarrow> w_id w' = k"
    by (auto simp: boot_state_def empty_state_def ex_wallet_def split: if_splits)
  have ty: "w_type ?w \<noteq> POOLING_WALLET" "w_type ?w \<noteq> RATE_LIMITED" by (simp_all add: ex_wallet_def)
  have pz: "\<forall>i. start_index boot_state True 1 \<le> i \<and>
                 i < unused_or_last boot_state + to_generate ex_env boot_state
               \<longrightarrow> puzzle_for_pk ?w (get_public_key ex_env i) \<noteq> None"
    by (simp add: ex_wallet_def)
  have e: "derivation_paths boot_state = []" by (simp add: boot_state_def empty_state_def)
  have n: "to_generate ex_env boot_state = 8"
    by (simp add: to_generate_def boot_state_def empty_state_def ex_env_def)
  have lu: "last_used boot_state = None" by (simp add: boot_state_def empty_state_def)
  have ef: "effects boot_result = [SubscribeToNewPuzzleHash [7000, 7001, 7002, 7003, 7004, 7005, 7006, 7007]]"
    by (simp add: boot_result_def)
  from create_more_puzzle_hashes_covers[OF boot_run reg keys ids ty pz] e n lu ef boot_run
  show ?thesis by simp
qed

section \<open>Properties of the singleton history engine\<close>
















section \<open>Properties of the balance queries\<close>

lemma add_removals_sum: "add_removals acc cs = acc + sum_list (map (\<lambda>c. uint (amount c)) cs)"
  by (induction cs arbitrary: acc) auto

lemma add_additions_sum:
  "add_additions s w acc cs =
     acc + sum_list (map (\<lambda>c. uint (amount c)) (filter (\<lambda>c. does_coin_belong_to_wallet s c w) cs))"
  by (induction cs arbitrary: acc) auto

lemma unconfirmed_amounts_sum:
  "unconfirmed_amounts s w (a, b) ts =
     (a + sum_list (map (\<lambda>t. sum_list (map (\<lambda>c. uint (amount c)) (removals t))) ts),
      b + sum_list (map (\<lambda>t. sum_list (map (\<lambda>c. uint (amount c))
         (filter (\<lambda>c. does_coin_belong_to_wallet s c w) (additions t)))) ts))"
  by (induction ts arbitrary: a b) (auto simp: add_removals_sum add_additions_sum)

lemma amounts_nonneg: "0 \<le> sum_list (map (\<lambda>r. uint (amount (wcr_coin r))) rs)"
  by (induction rs) auto

lemma sum_unspent_total:
  "0 \<le> acc \<Longrightarrow>
   sum_unspent acc rs =
     mk_uint128 (acc + sum_list (map (\<lambda>r. uint (amount (wcr_coin r))) rs))"
proof (induction rs arbitrary: acc)
  case Nil
  then show ?case by simp
next
  case (Cons r rs)
  have nn: "0 \<le> sum_list (map (\<lambda>r. uint (amount (wcr_coin r))) rs)" by (rule amounts_nonneg)
  have ur: "0 \<le> uint (amount (wcr_coin r))" by simp
  show ?case
  proof (cases "acc + uint (amount (wcr_coin r)) < 2 ^ 128")
    case True
    with Cons.prems ur
    have "mk_uint128 (acc + uint (amount (wcr_coin r))) = Inr (acc + uint (amount (wcr_coin r)))"
      by (simp add: mk_uint128_def)
    with Cons.IH[of "acc + uint (amount (wcr_coin r))"] Cons.prems ur show ?thesis
      by (simp add: bind_err_def add.assoc)
  next
    case False
    with nn
    have "\<not> acc + uint (amount (wcr_coin r))
              + sum_list (map (\<lambda>r. uint (amount (wcr_coin r))) rs) < 2 ^ 128"
      by linarith
    with False show ?thesis
      by (simp add: bind_err_def mk_uint128_def add.assoc)
  qed
qed

text \<open>
  C1 (as amended). \<open>get_unconfirmed_balance(wallet_id)\<close> is the confirmed balance minus
  the removal amounts of the wallet's unconfirmed transactions (whether or not the removed
  coin is the wallet's) PLUS the amounts of their additions that belong to the wallet; each
  of the two values is checked by \<open>uint128\<close>, which raises ValueError outside
  \<open>0 .. 2^128 - 1\<close>.
\<close>

theorem get_unconfirmed_balance_adds_change:
  "get_unconfirmed_balance s w None =
     bind_err (mk_uint128 (unspent_total s w))
       (\<lambda>confirmed. mk_uint128
          (confirmed - unconfirmed_removal_total s w + unconfirmed_addition_total s w))"
  by (simp add: get_unconfirmed_balance_def get_confirmed_balance_for_wallet_def
      sum_unspent_total unconfirmed_amounts_sum unspent_total_def Let_def
      unconfirmed_removal_total_def unconfirmed_addition_total_def)

text \<open>
  C1 as stated fails: with 10 confirmed, 10 being spent and 3 coming back as change the
  code answers 3, where confirmed minus removals minus own additions is -3.
\<close>

theorem unconfirmed_balance_minus_additions_counterexample:
  "get_unconfirmed_balance balance_state 1 None = Inr 3 \<and>
   unspent_total balance_state 1 - unconfirmed_removal_total balance_state 1
     - unconfirmed_addition_total balance_state 1 = - 3"
  by (simp add: get_unconfirmed_balance_def get_confirmed_balance_for_wallet_def
      balance_state_def empty_state_def pending_tx_def mk_coin_def ex_derivation_def
      get_unspent_coins_for_wallet_def get_unconfirmed_for_wallet_def bind_err_def mk_uint128_def
      does_coin_belong_to_wallet_def wallet_info_for_puzzle_hash_def
      get_derivation_record_for_puzzle_hash_def unspent_total_def
      unconfirmed_removal_total_def unconfirmed_addition_total_def)

end
